theory Spec2Isabelle
  imports Complex_Main
begin

section \<open>JavaScript strings and numbers\<close>

text \<open>
  A JavaScript string is modelled as a \<^typ>\<open>string\<close> of 8-bit code units (Gerber text and
  SVG path data are ASCII). A JavaScript Number is modelled as a \<^typ>\<open>real\<close>: arithmetic
  is exact, there is no binary rounding, no signed zero and no overflow to Infinity.
  \<open>NaN\<close> is the value \<open>None\<close> of \<^typ>\<open>real option\<close> wherever the code can produce it.
  \<open>VectorProcessor.mirror\<close> alone, which reads again what it has printed, has the
  infinities and \<open>NaN\<close> as numbers of their own.
\<close>

definition is_digit :: "char \<Rightarrow> bool" where
  "is_digit c = (c \<in> set ''0123456789'')"

definition digit_val :: "char \<Rightarrow> nat" where
  "digit_val c = of_char c - 48"

definition digit_char :: "nat \<Rightarrow> char" where
  "digit_char d = ''0123456789'' ! d"

definition nat_of_digits :: "string \<Rightarrow> nat" where
  "nat_of_digits ds = foldl (\<lambda>a c. 10 * a + digit_val c) 0 ds"

text \<open>The characters removed by \<open>String.prototype.trim\<close> and matched by \<open>\s\<close>:
  TAB, LF, VT, FF, CR, SPACE and NBSP (the ones below 256).\<close>

definition js_ws :: "char \<Rightarrow> bool" where
  "js_ws c = (c \<in> set [CHR 0x09, CHR 0x0A, CHR 0x0B, CHR 0x0C, CHR 0x0D, CHR 0x20, CHR 0xA0])"

definition trim :: "string \<Rightarrow> string" where
  "trim s = rev (dropWhile js_ws (rev (dropWhile js_ws s)))"

text \<open>\<open>toUpperCase\<close> on the ASCII letters; the other characters take no part in any
  pattern that is applied to an upper-cased block.\<close>

definition toUpper :: "char \<Rightarrow> char" where
  "toUpper c =
     (case map_of (zip ''abcdefghijklmnopqrstuvwxyz'' ''ABCDEFGHIJKLMNOPQRSTUVWXYZ'') c of
        Some u \<Rightarrow> u
      | None \<Rightarrow> c)"

fun after_prefix :: "string \<Rightarrow> string \<Rightarrow> string option" where
  "after_prefix [] s = Some s"
| "after_prefix (p # ps) [] = None"
| "after_prefix (p # ps) (c # cs) = (if p = c then after_prefix ps cs else None)"

definition startsWith :: "string \<Rightarrow> string \<Rightarrow> bool" where
  "startsWith s p = (after_prefix p s \<noteq> None)"

fun includes_str :: "string \<Rightarrow> string \<Rightarrow> bool" where
  "includes_str [] p = (p = [])"
| "includes_str (c # cs) p = (startsWith (c # cs) p \<or> includes_str cs p)"

text \<open>\<open>s.substring(s.indexOf(c) + 1)\<close>, or \<open>None\<close> when \<open>indexOf\<close> is \<open>-1\<close>.\<close>

definition after_char :: "char \<Rightarrow> string \<Rightarrow> string option" where
  "after_char c s = (case dropWhile (\<lambda>d. d \<noteq> c) s of [] \<Rightarrow> None | _ # r \<Rightarrow> Some r)"

fun join :: "string \<Rightarrow> string list \<Rightarrow> string" where
  "join sep [] = []"
| "join sep [t] = t"
| "join sep (t # u # ts) = t @ sep @ join sep (u # ts)"

subsection \<open>parseFloat, parseInt, toFixed\<close>

definition frac_val :: "string \<Rightarrow> real" where
  "frac_val ds = real (nat_of_digits ds) / 10 ^ length ds"

text \<open>The value of an optional exponent part (\<open>e\<close> or \<open>E\<close>, an optional sign, at least
  one digit) at the start of a string; \<open>0\<close> when there is none.\<close>

definition exponent_part :: "string \<Rightarrow> int" where
  "exponent_part s =
     (case s of
        [] \<Rightarrow> 0
      | c # r \<Rightarrow>
          if c = CHR ''e'' \<or> c = CHR ''E'' then
            (case r of
               [] \<Rightarrow> 0
             | d # r' \<Rightarrow>
                 if d = CHR ''-'' then - int (nat_of_digits (takeWhile is_digit r'))
                 else if d = CHR ''+'' then int (nat_of_digits (takeWhile is_digit r'))
                 else int (nat_of_digits (takeWhile is_digit r)))
          else 0)"

definition scale10 :: "real \<Rightarrow> int \<Rightarrow> real" where
  "scale10 m e = (if 0 \<le> e then m * 10 ^ nat e else m / 10 ^ nat (- e))"

text \<open>
  \<open>parseFloat\<close>: leading white space is skipped, then the longest prefix that is a decimal
  literal (sign, integer digits, a point, fraction digits, an exponent) is read; without a
  digit the result is \<open>NaN\<close>. The literal \<open>Infinity\<close> is not modelled: every argument that
  this program passes consists of digits, signs, points, separators and the letter \<open>e\<close>.
\<close>

definition parseFloat :: "string \<Rightarrow> real option" where
  "parseFloat s =
     (let t = dropWhile js_ws s;
          neg = (t \<noteq> [] \<and> hd t = CHR ''-'');
          t1 = (if t \<noteq> [] \<and> (hd t = CHR ''-'' \<or> hd t = CHR ''+'') then tl t else t);
          ip = takeWhile is_digit t1;
          t2 = dropWhile is_digit t1;
          hasdot = (t2 \<noteq> [] \<and> hd t2 = CHR ''.'');
          fp = (if hasdot then takeWhile is_digit (tl t2) else []);
          t3 = (if hasdot then dropWhile is_digit (tl t2) else t2)
      in if ip = [] \<and> fp = [] then None
         else Some ((if neg then - 1 else 1) *
                    scale10 (real (nat_of_digits ip) + frac_val fp) (exponent_part t3)))"

function digits :: "nat \<Rightarrow> string" where
  "digits n = (if n < 10 then [digit_char n] else digits (n div 10) @ [digit_char (n mod 10)])"
  by pat_completeness auto
termination
  by (relation "measure id") auto

declare digits.simps [simp del]

fun fixed_digits :: "nat \<Rightarrow> nat \<Rightarrow> string" where
  "fixed_digits 0 r = []"
| "fixed_digits (Suc f) r = fixed_digits f (r div 10) @ [digit_char (r mod 10)]"

text \<open>
  \<open>x.toFixed(f)\<close> for \<open>f > 0\<close> and \<open>x\<close> below \<open>10^21\<close> in magnitude, where the notation is
  fixed: a negative \<open>x\<close> gives a minus sign and the digits of \<open>-x\<close>;
  \<open>n\<close> is the integer nearest to \<open>x * 10^f\<close>, the larger one on a tie; the last \<open>f\<close> digits
  of \<open>n\<close>, padded with zeros, follow the point.
\<close>

definition toFixed :: "nat \<Rightarrow> real \<Rightarrow> string" where
  "toFixed f x =
     (let n = nat \<lfloor>\<bar>x\<bar> * 10 ^ f + 1 / 2\<rfloor>
      in (if x < 0 then ''-'' else []) @ digits (n div 10 ^ f) @ ''.'' @ fixed_digits f (n mod 10 ^ f))"

subsection \<open>The number pattern\<close>

text \<open>
  The regular expression \<open>[-+]?\d*\.?\d+\<close> matched at the start of a string, with the
  outcome of its backtracking written out: an optional sign, the longest run of digits,
  and a point with the digits after it when at least one digit follows the point. The
  result is the matched text and the rest of the string.
\<close>

definition match_num :: "string \<Rightarrow> (string \<times> string) option" where
  "match_num s =
     (let sg = (if s \<noteq> [] \<and> (hd s = CHR ''-'' \<or> hd s = CHR ''+'') then [hd s] else []);
          r = drop (length sg) s;
          d1 = takeWhile is_digit r;
          r1 = dropWhile is_digit r;
          d2 = (if r1 \<noteq> [] \<and> hd r1 = CHR ''.'' then takeWhile is_digit (tl r1) else [])
      in if d2 \<noteq> [] then Some (sg @ d1 @ ''.'' @ d2, dropWhile is_digit (tl r1))
         else if d1 \<noteq> [] then Some (sg @ d1, r1)
         else None)"

lemma match_num_shorter:
  assumes "match_num s = Some (tok, rest)"
  shows "length rest < length s"
proof -
  define sg where "sg = (if s \<noteq> [] \<and> (hd s = CHR ''-'' \<or> hd s = CHR ''+'') then [hd s] else [])"
  define r where "r = drop (length sg) s"
  define r1 where "r1 = dropWhile is_digit r"
  have r: "length r \<le> length s" by (simp add: r_def)
  have r1: "length r1 \<le> length r" by (simp add: r1_def length_dropWhile_le)
  have d1: "takeWhile is_digit r \<noteq> [] \<Longrightarrow> length r1 < length r"
  proof -
    assume "takeWhile is_digit r \<noteq> []"
    then have "0 < length (takeWhile is_digit r)" by simp
    moreover have "length (takeWhile is_digit r) + length r1 = length r"
      unfolding r1_def by (metis length_append takeWhile_dropWhile_id)
    ultimately show ?thesis by linarith
  qed
  have tl: "r1 \<noteq> [] \<Longrightarrow> length (dropWhile is_digit (tl r1)) < length r1"
  proof -
    assume "r1 \<noteq> []"
    then have "length (tl r1) < length r1" by (cases r1) auto
    moreover have "length (dropWhile is_digit (tl r1)) \<le> length (tl r1)"
      by (rule length_dropWhile_le)
    ultimately show ?thesis by linarith
  qed
  from assms show ?thesis
    unfolding match_num_def Let_def sg_def [symmetric] r_def [symmetric] r1_def [symmetric]
    using r r1 d1 tl by (auto split: if_splits)
qed

text \<open>\<open>s.match(/[-+]?\d*\.?\d+/g)\<close>: every match, scanning from the left; after a match
  the scan goes on behind it, otherwise one character further.\<close>

function scan_nums :: "string \<Rightarrow> string list" where
  "scan_nums [] = []"
| "scan_nums (c # cs) =
     (case match_num (c # cs) of
        Some (tok, rest) \<Rightarrow> tok # scan_nums rest
      | None \<Rightarrow> scan_nums cs)"
  by pat_completeness auto
termination
  by (relation "measure length") (auto dest: match_num_shorter)


section \<open>Bounding boxes\<close>

record box =
  box_x :: real
  box_y :: real
  box_width :: real
  box_height :: real

definition zero_box :: box where
  "zero_box = \<lparr>box_x = 0, box_y = 0, box_width = 0, box_height = 0\<rparr>"

text \<open>
  The four running extremes \<open>minX, minY, maxX, maxY\<close>. They start at \<open>Infinity\<close> and
  \<open>-Infinity\<close>, which is the value \<open>None\<close> here; the flag that the source keeps beside
  them (\<open>hasAny\<close>, \<open>hasAnyPoint\<close>) is set exactly when they are first assigned.
\<close>

type_synonym extent = "(real \<times> real \<times> real \<times> real) option"

text \<open>\<open>minX = Math.min(minX, lx); minY = Math.min(minY, ly); maxX = Math.max(maxX, hx);
  maxY = Math.max(maxY, hy)\<close>.\<close>

definition widen :: "extent \<Rightarrow> real \<Rightarrow> real \<Rightarrow> real \<Rightarrow> real \<Rightarrow> extent" where
  "widen e lx ly hx hy =
     (case e of
        None \<Rightarrow> Some (lx, ly, hx, hy)
      | Some (a, b, c, d) \<Rightarrow> Some (min a lx, min b ly, max c hx, max d hy))"

section \<open>GerberToPath.calculatePathBounds and GerberToPath.getBounds\<close>

fun pairs_bounds :: "string list \<Rightarrow> extent \<Rightarrow> extent" where
  "pairs_bounds (a # b # rest) e =
     (case (parseFloat a, parseFloat b) of
        (Some x, Some y) \<Rightarrow> pairs_bounds rest (widen e x y x y)
      | _ \<Rightarrow> pairs_bounds rest e)"
| "pairs_bounds _ e = e"

definition calculatePathBounds :: "string \<Rightarrow> box" where
  "calculatePathBounds content =
     (case pairs_bounds (scan_nums content) None of
        None \<Rightarrow> zero_box
      | Some (a, b, c, d) \<Rightarrow> \<lparr>box_x = a, box_y = b, box_width = c - a, box_height = d - b\<rparr>)"

record layer =
  layer_content :: string
  layer_bounds :: "box option"

definition has_usable_bounds :: "layer \<Rightarrow> bool" where
  "has_usable_bounds l = (case layer_bounds l of None \<Rightarrow> False | Some b \<Rightarrow> box_width b > 0)"

definition has_usable_content :: "layer \<Rightarrow> bool" where
  "has_usable_content l =
     (layer_content l \<noteq> [] \<and>
      (let b = calculatePathBounds (layer_content l) in box_width b > 0 \<or> box_height b > 0))"

definition add_box :: "extent \<Rightarrow> box \<Rightarrow> extent" where
  "add_box e b = widen e (box_x b) (box_y b) (box_x b + box_width b) (box_y b + box_height b)"

text \<open>The body of \<open>layers.forEach\<close>.\<close>

definition layer_step :: "extent \<Rightarrow> layer \<Rightarrow> extent" where
  "layer_step e l =
     (case layer_bounds l of
        Some b \<Rightarrow>
          if box_width b > 0 then add_box e b
          else if layer_content l = [] then e
          else (let c = calculatePathBounds (layer_content l)
                in if box_width c > 0 \<or> box_height c > 0 then add_box e c else e)
      | None \<Rightarrow>
          if layer_content l = [] then e
          else (let c = calculatePathBounds (layer_content l)
                in if box_width c > 0 \<or> box_height c > 0 then add_box e c else e))"

definition getBounds :: "layer list \<Rightarrow> box" where
  "getBounds layers =
     (case foldl layer_step None layers of
        None \<Rightarrow> \<lparr>box_x = 0, box_y = 0, box_width = 100, box_height = 100\<rparr>
      | Some (a, b, c, d) \<Rightarrow>
          \<lparr>box_x = a, box_y = b, box_width = max 0.1 (c - a), box_height = max 0.1 (d - b)\<rparr>)"

section \<open>VectorProcessor.mirror\<close>

text \<open>The command letters of \<open>/([a-df-z])([^a-df-z]*)/gi\<close>: every ASCII letter but \<open>e\<close>
  and \<open>E\<close>.\<close>

definition is_cmd :: "char \<Rightarrow> bool" where
  "is_cmd c = (c \<in> set ''abcdfghijklmnopqrstuvwxyzABCDFGHIJKLMNOPQRSTUVWXYZ'')"

text \<open>The successive results of \<open>regex.exec(dPath)\<close>: a command letter and the longest run
  of other characters behind it. Text before the first command letter is never matched.\<close>

function segments :: "string \<Rightarrow> (char \<times> string) list" where
  "segments [] = []"
| "segments (c # cs) =
     (if is_cmd c
      then (c, takeWhile (\<lambda>d. \<not> is_cmd d) cs) # segments (dropWhile (\<lambda>d. \<not> is_cmd d) cs)
      else segments cs)"
  by pat_completeness auto
termination
  by (relation "measure length") (auto simp: less_Suc_eq_le length_dropWhile_le)

definition is_sep :: "char \<Rightarrow> bool" where
  "is_sep c = (js_ws c \<or> c = CHR '','')"

lemma split_sep_shorter:
  assumes "dropWhile (\<lambda>c. \<not> is_sep c) s \<noteq> []"
  shows "length (dropWhile is_sep (dropWhile (\<lambda>c. \<not> is_sep c) s)) < length s"
proof -
  obtain c cs where r: "dropWhile (\<lambda>c. \<not> is_sep c) s = c # cs"
    using assms by (cases "dropWhile (\<lambda>c. \<not> is_sep c) s") auto
  have "is_sep c"
    using hd_dropWhile [of "\<lambda>c. \<not> is_sep c" s] assms r by simp
  then have "length (dropWhile is_sep (c # cs)) \<le> length cs"
    by (simp add: length_dropWhile_le)
  moreover have "length (c # cs) \<le> length s"
    using length_dropWhile_le [of "\<lambda>c. \<not> is_sep c" s] r by simp
  ultimately show ?thesis
    using r by simp
qed

text \<open>\<open>s.split(/[\s,]+/)\<close>: the pieces between the longest runs of separators; a
  separator at either end leaves an empty piece there.\<close>

function split_sep :: "string \<Rightarrow> string list" where
  "split_sep s =
     (let r = dropWhile (\<lambda>c. \<not> is_sep c) s
      in if r = [] then [takeWhile (\<lambda>c. \<not> is_sep c) s]
         else takeWhile (\<lambda>c. \<not> is_sep c) s # split_sep (dropWhile is_sep r))"
  by pat_completeness auto
termination
  by (relation "measure length") (simp_all add: split_sep_shorter)

declare split_sep.simps [simp del]

text \<open>
  \<open>mirror\<close> prints numbers into the path, and a second application reads what the first
  has printed; a number that is not finite is printed as a word. So a number is here a
  finite real, an infinity or \<open>NaN\<close>. The finite ones are exact; a result whose magnitude
  is \<open>2^1024 - 2^970\<close> or more, which rounds beyond the largest double, is an infinity.
\<close>

datatype number = Finite real | PosInfinity | NegInfinity | NaN

definition overflows :: "real \<Rightarrow> bool" where
  "overflows x = (2 ^ 1024 - 2 ^ 970 \<le> \<bar>x\<bar>)"

definition number_of :: "real \<Rightarrow> number" where
  "number_of x = (if overflows x then (if x < 0 then NegInfinity else PosInfinity) else Finite x)"

lemma number_of_code [code]:
  "number_of x =
     (if \<bar>x\<bar> < 1000000000000000000000 then Finite x
      else if overflows x then (if x < 0 then NegInfinity else PosInfinity)
      else Finite x)"
  by (simp add: number_of_def overflows_def)

fun number_add :: "number \<Rightarrow> number \<Rightarrow> number" where
  "number_add NaN b = NaN"
| "number_add a NaN = NaN"
| "number_add PosInfinity NegInfinity = NaN"
| "number_add NegInfinity PosInfinity = NaN"
| "number_add PosInfinity b = PosInfinity"
| "number_add a PosInfinity = PosInfinity"
| "number_add NegInfinity b = NegInfinity"
| "number_add a NegInfinity = NegInfinity"
| "number_add (Finite a) (Finite b) = number_of (a + b)"

fun number_negate :: "number \<Rightarrow> number" where
  "number_negate (Finite a) = Finite (- a)"
| "number_negate PosInfinity = NegInfinity"
| "number_negate NegInfinity = PosInfinity"
| "number_negate NaN = NaN"

definition number_subtract :: "number \<Rightarrow> number \<Rightarrow> number" where
  "number_subtract a b = number_add a (number_negate b)"

definition parseFloat_number :: "string \<Rightarrow> number" where
  "parseFloat_number s = (case parseFloat s of None \<Rightarrow> NaN | Some v \<Rightarrow> number_of v)"

definition toFixed_number :: "nat \<Rightarrow> number \<Rightarrow> string" where
  "toFixed_number f n =
     (case n of
        Finite x \<Rightarrow> toFixed f x
      | PosInfinity \<Rightarrow> ''Infinity''
      | NegInfinity \<Rightarrow> ''-Infinity''
      | NaN \<Rightarrow> ''NaN'')"

text \<open>The callback of \<open>nums.map\<close>.\<close>

definition mirror_num :: "bool \<Rightarrow> number \<Rightarrow> nat \<Rightarrow> string \<Rightarrow> string" where
  "mirror_num isArc centerX idx val =
     (case parseFloat_number val of
        NaN \<Rightarrow> val
      | num \<Rightarrow>
          if isArc then
            (if idx = 4 then (if num = Finite 0 then ''1'' else ''0'')
             else if idx = 5 then toFixed_number 3 (number_add centerX (number_subtract centerX num))
             else val)
          else
            (if idx mod 2 = 0 then toFixed_number 3 (number_add centerX (number_subtract centerX num))
             else val))"

text \<open>One turn of the \<open>while\<close> loop: the text appended to \<open>result\<close>.\<close>

definition mirror_segment :: "number \<Rightarrow> char \<times> string \<Rightarrow> string" where
  "mirror_segment centerX seg =
     (case seg of (command, coordsStr) \<Rightarrow>
        if trim coordsStr = [] then [command]
        else
          (let nums = split_sep (trim coordsStr);
               isArc = (toUpper command = CHR ''A'')
           in command # join '' '' (map (\<lambda>(idx, val). mirror_num isArc centerX idx val)
                                      (enumerate 0 nums))))"

text \<open>\<open>bounds\<close> is \<open>None\<close> when the caller passes no object; its fields are finite numbers.\<close>

definition mirror :: "string \<Rightarrow> box option \<Rightarrow> string" where
  "mirror dPath bounds =
     (if dPath = [] then []
      else case bounds of
             None \<Rightarrow> dPath
           | Some b \<Rightarrow>
               if box_width b \<le> 0 then dPath
               else concat (map (mirror_segment (number_of (box_x b + box_width b / 2)))
                           (segments dPath)))"


section \<open>GerberToPath.convert\<close>

subsection \<open>Apertures and format specification, read from the whole text\<close>

lemma after_prefix_length:
  "after_prefix p s = Some r \<Longrightarrow> length s = length p + length r"
  by (induction p s rule: after_prefix.induct) (auto split: if_splits)

text \<open>The pattern \<open>%ADD(\d+)C,([\d.]+)\*%\<close> at the start of a string: the aperture code,
  the parameter text and the rest of the string.\<close>

definition match_add :: "string \<Rightarrow> (string \<times> string \<times> string) option" where
  "match_add s =
     (case after_prefix ''%ADD'' s of
        None \<Rightarrow> None
      | Some r \<Rightarrow>
          if takeWhile is_digit r = [] then None
          else
            (case after_prefix ''C,'' (dropWhile is_digit r) of
               None \<Rightarrow> None
             | Some r2 \<Rightarrow>
                 if takeWhile (\<lambda>c. is_digit c \<or> c = CHR ''.'') r2 = [] then None
                 else
                   (case after_prefix ''*%'' (dropWhile (\<lambda>c. is_digit c \<or> c = CHR ''.'') r2) of
                      None \<Rightarrow> None
                    | Some r4 \<Rightarrow>
                        Some (takeWhile is_digit r,
                              takeWhile (\<lambda>c. is_digit c \<or> c = CHR ''.'') r2, r4))))"

lemma match_add_shorter:
  assumes "match_add s = Some (code, par, rest)"
  shows "length rest < length s"
proof -
  from assms obtain r r2 where
    1: "after_prefix ''%ADD'' s = Some r" and
    2: "after_prefix ''C,'' (dropWhile is_digit r) = Some r2" and
    3: "after_prefix ''*%'' (dropWhile (\<lambda>c. is_digit c \<or> c = CHR ''.'') r2) = Some rest"
    by (auto simp: match_add_def split: option.splits if_splits)
  have "length rest \<le> length (dropWhile (\<lambda>c. is_digit c \<or> c = CHR ''.'') r2)"
    using after_prefix_length [OF 3] by simp
  also have "\<dots> \<le> length r2"
    by (rule length_dropWhile_le)
  also have "\<dots> \<le> length (dropWhile is_digit r)"
    using after_prefix_length [OF 2] by simp
  also have "\<dots> \<le> length r"
    by (rule length_dropWhile_le)
  also have "\<dots> < length s"
    using after_prefix_length [OF 1] by simp
  finally show ?thesis .
qed

text \<open>\<open>gerberText.match(/%ADD(\d+)C,([\d.]+)\*%/g)\<close>, each match already taken apart
  into its two groups as the \<open>forEach\<close> callback does.\<close>

function scan_add :: "string \<Rightarrow> (string \<times> string) list" where
  "scan_add [] = []"
| "scan_add (c # cs) =
     (case match_add (c # cs) of
        Some (code, par, rest) \<Rightarrow> (code, par) # scan_add rest
      | None \<Rightarrow> scan_add cs)"
  by pat_completeness auto
termination
  by (relation "measure length") (auto dest: match_add_shorter)

text \<open>
  The tool dictionary \<open>apertures\<close> is an association list in which a later assignment
  \<open>apertures[code] = parseFloat(param)\<close> stands before an earlier one, so that \<open>map_of\<close>
  reads the value assigned last. A stored \<open>None\<close> is \<open>NaN\<close>.
\<close>

type_synonym apertures = "(string \<times> real option) list"

definition parse_apertures :: "string \<Rightarrow> apertures" where
  "parse_apertures gerberText =
     foldl (\<lambda>aps (code, par). (code, parseFloat par) # aps) [] (scan_add gerberText)"

text \<open>\<open>apertures[tool] || d\<close>: the default replaces \<open>undefined\<close>, \<open>NaN\<close> and \<open>0\<close>.\<close>

definition or_default :: "apertures \<Rightarrow> string \<Rightarrow> real \<Rightarrow> real" where
  "or_default aps tool d =
     (case map_of aps tool of
        Some (Some v) \<Rightarrow> if v = 0 then d else v
      | _ \<Rightarrow> d)"

text \<open>The first match of a pattern anywhere in a string, given its match at the start.\<close>

fun first_match :: "(string \<Rightarrow> 'a option) \<Rightarrow> string \<Rightarrow> 'a option" where
  "first_match f [] = f []"
| "first_match f (c # cs) = (case f (c # cs) of Some r \<Rightarrow> Some r | None \<Rightarrow> first_match f cs)"

text \<open>\<open>%FS([LT])([AI])X(\d)(\d)Y(\d)(\d)\*%\<close> at the start of a string: groups 1, 2 and 4.\<close>

definition match_fs :: "string \<Rightarrow> (char \<times> char \<times> char) option" where
  "match_fs s =
     (case after_prefix ''%FS'' s of
        Some (z # m # x # d1 # d2 # y # d3 # d4 # st # pc # rest) \<Rightarrow>
          if z \<in> set ''LT'' \<and> m \<in> set ''AI'' \<and> x = CHR ''X'' \<and> is_digit d1 \<and> is_digit d2 \<and>
             y = CHR ''Y'' \<and> is_digit d3 \<and> is_digit d4 \<and> st = CHR ''*'' \<and> pc = CHR ''%''
          then Some (z, m, d2) else None
      | _ \<Rightarrow> None)"

text \<open>The second digit of the last \<open>X\d\d\<close> in a string.\<close>

fun last_xdd :: "string \<Rightarrow> char option" where
  "last_xdd (x # d1 # d2 # rest) =
     (case last_xdd (d1 # d2 # rest) of
        Some d \<Rightarrow> Some d
      | None \<Rightarrow> if x = CHR ''X'' \<and> is_digit d1 \<and> is_digit d2 then Some d2 else None)"
| "last_xdd _ = None"

definition is_line_end :: "char \<Rightarrow> bool" where
  "is_line_end c = (c = CHR 0x0A \<or> c = CHR 0x0D)"

text \<open>\<open>%FS([LT])([AI]).*X(\d)(\d)\<close> at the start of a string: the greedy \<open>.*\<close> stays on
  the line and gives the last \<open>X\d\d\<close> of it.\<close>

definition match_simple_fs :: "string \<Rightarrow> (char \<times> char \<times> char) option" where
  "match_simple_fs s =
     (case after_prefix ''%FS'' s of
        Some (z # m # rest) \<Rightarrow>
          if z \<in> set ''LT'' \<and> m \<in> set ''AI'' then
            (case last_xdd (takeWhile (\<lambda>c. \<not> is_line_end c) rest) of
               Some d \<Rightarrow> Some (z, m, d)
             | None \<Rightarrow> None)
          else None
      | _ \<Rightarrow> None)"

text \<open>\<open>decimalPlaces\<close> and \<open>coordinateMode\<close> after the two attempts; \<open>zeroSuppression\<close> is
  read by the source and never used.\<close>

definition parse_format :: "string \<Rightarrow> nat \<times> char" where
  "parse_format gerberText =
     (case first_match match_fs gerberText of
        Some (z, m, d) \<Rightarrow> (digit_val d, m)
      | None \<Rightarrow>
          (case first_match match_simple_fs gerberText of
             Some (z, m, d) \<Rightarrow> (digit_val d, m)
           | None \<Rightarrow> (6, CHR ''A'')))"

subsection \<open>Blocks\<close>

text \<open>\<open>gerberText.replace(/\*/g, '\<section>\<section>').split('\<section>\<section>')\<close>; the mark is the code unit
  \<open>0xA7\<close>.\<close>

definition replace_stars :: "string \<Rightarrow> string" where
  "replace_stars s = concat (map (\<lambda>c. if c = CHR ''*'' then [CHR 0xA7, CHR 0xA7] else [c]) s)"

fun split_marks :: "string \<Rightarrow> string \<Rightarrow> string list" where
  "split_marks acc (a # b # cs) =
     (if a = CHR 0xA7 \<and> b = CHR 0xA7 then rev acc # split_marks [] cs
      else split_marks (a # acc) (b # cs))"
| "split_marks acc [a] = [rev (a # acc)]"
| "split_marks acc [] = [rev acc]"

text \<open>\<open>X(\d)(\d)Y(\d)(\d)\<close> at the start of a string: group 2.\<close>

fun match_xy :: "string \<Rightarrow> char option" where
  "match_xy (x # d1 # d2 # y # d3 # d4 # rest) =
     (if x = CHR ''X'' \<and> is_digit d1 \<and> is_digit d2 \<and> y = CHR ''Y'' \<and> is_digit d3 \<and> is_digit d4
      then Some d2 else None)"
| "match_xy _ = None"

text \<open>\<open>D(\d+)\<close> at the start of a string: group 1.\<close>

fun match_tool :: "string \<Rightarrow> string option" where
  "match_tool (c # cs) =
     (if c = CHR ''D'' \<and> takeWhile is_digit cs \<noteq> [] then Some (takeWhile is_digit cs) else None)"
| "match_tool [] = None"

definition is_hex_digit :: "char \<Rightarrow> bool" where
  "is_hex_digit c = (c \<in> set ''0123456789abcdefABCDEF'')"

definition hex_val :: "char \<Rightarrow> nat" where
  "hex_val c = (if is_digit c then digit_val c
                else if c \<in> set ''abcdef'' then of_char c - 87 else of_char c - 55)"

text \<open>\<open>parseInt\<close> without a radix: white space, a sign, the prefix \<open>0x\<close> or \<open>0X\<close> for
  base 16, then the longest run of digits; \<open>NaN\<close> when that run is empty.\<close>

definition parseInt :: "string \<Rightarrow> int option" where
  "parseInt s =
     (let t = dropWhile js_ws s;
          sgn = (if t \<noteq> [] \<and> hd t = CHR ''-'' then - 1 else 1);
          t1 = (if t \<noteq> [] \<and> (hd t = CHR ''-'' \<or> hd t = CHR ''+'') then tl t else t)
      in case after_prefix ''0'' t1 of
           Some (x # h) \<Rightarrow>
             if x = CHR ''x'' \<or> x = CHR ''X'' then
               (if takeWhile is_hex_digit h = [] then None
                else Some (sgn * int (foldl (\<lambda>a c. 16 * a + hex_val c) 0 (takeWhile is_hex_digit h))))
             else Some (sgn * int (nat_of_digits (takeWhile is_digit t1)))
         | _ \<Rightarrow>
             if takeWhile is_digit t1 = [] then None
             else Some (sgn * int (nat_of_digits (takeWhile is_digit t1))))"

subsection \<open>The interpreter state and one block\<close>

text \<open>The variables that the loop over the blocks reads and writes. \<open>extent\<close> holds
  \<open>minX, minY, maxX, maxY\<close> and is set exactly when \<open>hasAnyPoint\<close> is.\<close>

record conv_state =
  currentX :: real
  currentY :: real
  lastX :: real
  lastY :: real
  hasLastPoint :: bool
  isFirstMove :: bool
  currentTool :: string
  lastDCode :: int
  isRegionMode :: bool
  divisor :: real
  pathDataArray :: "string list"
  extent :: extent

definition init_state :: "nat \<Rightarrow> conv_state" where
  "init_state decimalPlaces =
     \<lparr>currentX = 0, currentY = 0, lastX = 0, lastY = 0, hasLastPoint = False,
      isFirstMove = True, currentTool = ''10'', lastDCode = 2, isRegionMode = False,
      divisor = 10 ^ decimalPlaces, pathDataArray = [], extent = None\<rparr>"

definition push :: "string \<Rightarrow> conv_state \<Rightarrow> conv_state" where
  "push piece st = st\<lparr>pathDataArray := pathDataArray st @ [piece]\<rparr>"

text \<open>
  The value \<open>finalVal\<close> of the field behind the first occurrence of an axis letter: the
  text matched by \<open>^([-+]?\d*\.?\d+)\<close> is divided by the divisor unless it holds a point.
  \<open>parseFloat\<close> of a matched text is never \<open>NaN\<close>, so that branch is the one of no match.
\<close>

definition read_coord :: "char \<Rightarrow> string \<Rightarrow> real \<Rightarrow> real option" where
  "read_coord axis block dv =
     (case after_char axis block of
        None \<Rightarrow> None
      | Some rest \<Rightarrow>
          (case match_num rest of
             None \<Rightarrow> None
           | Some (tok, _) \<Rightarrow>
               (case parseFloat tok of
                  None \<Rightarrow> None
                | Some val \<Rightarrow> Some (if CHR ''.'' \<in> set tok then val else val / dv))))"

text \<open>The G-codes of a block: the state and the block's own \<open>dCode\<close>.\<close>

definition apply_gcodes :: "string \<Rightarrow> conv_state \<Rightarrow> conv_state \<times> int option" where
  "apply_gcodes block st =
     (let (st1, dCode) =
            (if includes_str block ''G00'' then (st\<lparr>lastDCode := 2\<rparr>, Some 2)
             else if includes_str block ''G01'' then (st\<lparr>lastDCode := 1\<rparr>, None)
             else (st, None));
          st2 = (if includes_str block ''G36'' then st1\<lparr>isRegionMode := True\<rparr> else st1);
          st3 = (if includes_str block ''G37'' then push ''Z '' (st2\<lparr>isRegionMode := False\<rparr>) else st2)
      in (st3, dCode))"

text \<open>The coordinates of a block: the state and \<open>xMatchFound || yMatchFound\<close>.\<close>

definition apply_coords :: "bool \<Rightarrow> string \<Rightarrow> conv_state \<Rightarrow> conv_state \<times> bool" where
  "apply_coords isIncremental block st =
     (let fx = read_coord (CHR ''X'') block (divisor st);
          fy = read_coord (CHR ''Y'') block (divisor st);
          newX = (case fx of
                    None \<Rightarrow> currentX st
                  | Some v \<Rightarrow> if isIncremental \<and> \<not> isFirstMove st then currentX st + v else v);
          newY = (case fy of
                    None \<Rightarrow> currentY st
                  | Some v \<Rightarrow> if isIncremental \<and> \<not> isFirstMove st then currentY st + v else v)
      in if fx \<noteq> None \<or> fy \<noteq> None
         then (st\<lparr>currentX := newX, currentY := newY,
                  extent := widen (extent st) newX newY newX newY\<rparr>, True)
         else (st, False))"

text \<open>The D-code of a block, read behind the first \<open>D\<close>.\<close>

definition apply_dcode :: "string \<Rightarrow> conv_state \<times> int option \<Rightarrow> conv_state \<times> int option" where
  "apply_dcode block sd =
     (case after_char (CHR ''D'') block of
        None \<Rightarrow> sd
      | Some rest \<Rightarrow>
          (case parseInt rest of
             None \<Rightarrow> sd
           | Some dVal \<Rightarrow>
               if dVal = 1 \<or> dVal = 2 \<or> dVal = 3
               then ((fst sd)\<lparr>lastDCode := dVal\<rparr>, Some dVal)
               else sd))"

definition point_text :: "real \<Rightarrow> real \<Rightarrow> string" where
  "point_text px py = toFixed 3 px @ '' '' @ toFixed 3 py @ '' ''"

text \<open>A draw with a previous point outside a region: the thick track.\<close>

definition draw_track :: "apertures \<Rightarrow> conv_state \<Rightarrow> conv_state" where
  "draw_track aps st =
     (let w = or_default aps (currentTool st) 0.2;
          dx = currentX st - lastX st;
          dy = currentY st - lastY st;
          len = sqrt (dx * dx + dy * dy)
      in if len > 0.001 then
           (let nx = (- dy / len) * (w / 2);
                ny = (dx / len) * (w / 2)
            in if or_default aps (currentTool st) 0 > 0 then
                 push (''M'' @ point_text (currentX st) (currentY st))
                   (push (''M'' @ point_text (lastX st + nx) (lastY st + ny) @
                          ''L'' @ point_text (currentX st + nx) (currentY st + ny) @
                          ''L'' @ point_text (currentX st - nx) (currentY st - ny) @
                          ''L'' @ point_text (lastX st - nx) (lastY st - ny) @ ''Z '') st)
               else push (''L'' @ point_text (currentX st) (currentY st)) st)
         else push (''L'' @ point_text (currentX st) (currentY st)) st)"

text \<open>A flash: two half circles around the current point.\<close>

definition flash_text :: "apertures \<Rightarrow> conv_state \<Rightarrow> string" where
  "flash_text aps st =
     (let r = or_default aps (currentTool st) 0.4 / 2;
          rF = toFixed 3 r;
          xL = toFixed 3 (currentX st - r);
          xR = toFixed 3 (currentX st + r);
          yF = toFixed 3 (currentY st)
      in ''M'' @ xL @ '' '' @ yF @ '' A'' @ rF @ '' '' @ rF @ '' 0 1 0 '' @ xR @ '' '' @ yF @
         '' A'' @ rF @ '' '' @ rF @ '' 0 1 0 '' @ xL @ '' '' @ yF @ '' Z '')"

text \<open>The chain \<open>if (effectiveOp === 2) \<dots> else if (effectiveOp === 1) \<dots> else if
  (effectiveOp === 3) \<dots>\<close>.\<close>

definition plot :: "apertures \<Rightarrow> int \<Rightarrow> conv_state \<Rightarrow> conv_state" where
  "plot aps effectiveOp st =
     (if effectiveOp = 2 then
        (push (''M'' @ point_text (currentX st) (currentY st)) st)
          \<lparr>isFirstMove := False, lastX := currentX st, lastY := currentY st, hasLastPoint := True\<rparr>
      else if effectiveOp = 1 then
        (if isFirstMove st \<or> isRegionMode st \<or> \<not> hasLastPoint st
         then (push ((if isFirstMove st \<or> \<not> hasLastPoint st then ''M'' else ''L'') @
                     point_text (currentX st) (currentY st)) st)
                \<lparr>isFirstMove := False, hasLastPoint := True\<rparr>
         else draw_track aps st)
          \<lparr>lastX := currentX st, lastY := currentY st, hasLastPoint := True\<rparr>
      else if effectiveOp = 3 then
        (push (flash_text aps st) st)\<lparr>isFirstMove := True\<rparr>
      else st)"

text \<open>A block that is neither a parameter block nor a tool selection.\<close>

definition block_operation :: "apertures \<Rightarrow> bool \<Rightarrow> conv_state \<Rightarrow> string \<Rightarrow> conv_state" where
  "block_operation aps isIncremental st block =
     (let (st1, dCode1) = apply_gcodes block st;
          (st2, found) = apply_coords isIncremental block st1;
          (st3, dCode) = apply_dcode block (st2, dCode1);
          effectiveOp = (case dCode of Some d \<Rightarrow> d | None \<Rightarrow> lastDCode st3)
      in if found \<or> dCode \<noteq> None then plot aps effectiveOp st3 else st3)"

text \<open>The body of \<open>for (let block of blocks)\<close>.\<close>

definition process_block :: "apertures \<Rightarrow> bool \<Rightarrow> conv_state \<Rightarrow> string \<Rightarrow> conv_state" where
  "process_block aps isIncremental st raw =
     (let block = trim raw;
          upperBlock = map toUpper block
      in if block = [] then st
         else if startsWith upperBlock ''%'' then
           (case first_match match_xy upperBlock of
              Some d \<Rightarrow> st\<lparr>divisor := 10 ^ digit_val d\<rparr>
            | None \<Rightarrow> st)
         else
           (case first_match match_tool upperBlock of
              Some code \<Rightarrow>
                if nat_of_digits code \<ge> 10 then st\<lparr>currentTool := code\<rparr>
                else block_operation aps isIncremental st block
            | None \<Rightarrow> block_operation aps isIncremental st block))"

text \<open>The whole conversion: the path and the bounds.\<close>

definition convert :: "string \<Rightarrow> string \<times> box" where
  "convert gerberText =
     (if gerberText = [] then ([], zero_box)
      else
        (let aps = parse_apertures gerberText;
             (decimalPlaces, coordinateMode) = parse_format gerberText;
             isIncremental = (coordinateMode = CHR ''I'' \<or> includes_str gerberText ''G91'');
             blocks = split_marks [] (replace_stars gerberText);
             st = foldl (process_block aps isIncremental) (init_state decimalPlaces) blocks
         in (trim (concat (pathDataArray st)),
             case extent st of
               None \<Rightarrow> zero_box
             | Some (a, b, c, d) \<Rightarrow>
                 \<lparr>box_x = a, box_y = b, box_width = c - a, box_height = d - b\<rparr>)))"

section \<open>Properties of the bounds and of the mirror guard\<close>

definition layer_contributes :: "layer \<Rightarrow> bool" where
  "layer_contributes l = (has_usable_bounds l \<or> has_usable_content l)"

lemma layer_step_idle:
  "\<not> layer_contributes l \<Longrightarrow> layer_step e l = e"
  by (cases "layer_bounds l")
     (auto simp: layer_contributes_def has_usable_bounds_def has_usable_content_def
                 layer_step_def Let_def)

lemma foldl_layer_step_idle:
  "\<forall>l\<in>set layers. \<not> layer_contributes l \<Longrightarrow> foldl layer_step e layers = e"
  by (induction layers arbitrary: e) (simp_all add: layer_step_idle)


lemma widen_Some: "widen e lx ly hx hy \<noteq> None"
  by (cases e) (auto simp: widen_def simp del: not_None_eq)

lemma layer_step_keeps: "e \<noteq> None \<Longrightarrow> layer_step e l \<noteq> None"
  by (cases "layer_bounds l")
     (auto simp: layer_step_def add_box_def widen_Some Let_def simp del: not_None_eq)

lemma layer_step_busy: "layer_contributes l \<Longrightarrow> layer_step e l \<noteq> None"
  by (cases "layer_bounds l")
     (auto simp: layer_contributes_def has_usable_bounds_def has_usable_content_def
                 layer_step_def add_box_def widen_Some Let_def simp del: not_None_eq)

lemma foldl_layer_step_keeps: "e \<noteq> None \<Longrightarrow> foldl layer_step e layers \<noteq> None"
  by (induction layers arbitrary: e) (simp_all add: layer_step_keeps del: not_None_eq)

lemma foldl_layer_step_busy:
  "\<exists>l\<in>set layers. layer_contributes l \<Longrightarrow> foldl layer_step e layers \<noteq> None"
proof (induction layers arbitrary: e)
  case Nil
  then show ?case by simp
next
  case (Cons l layers)
  show ?case
  proof (cases "layer_contributes l")
    case True
    then show ?thesis
      by (simp add: layer_step_busy foldl_layer_step_keeps del: not_None_eq)
  next
    case False
    with Cons.prems have "\<exists>l\<in>set layers. layer_contributes l" by simp
    then show ?thesis
      by (simp add: Cons.IH del: not_None_eq)
  qed
qed

text \<open>
  C10: \<open>getBounds\<close> returns the fixed box \<open>{x: 0, y: 0, width: 100, height: 100}\<close> when no
  layer contributes usable bounds or content, and the width and the height of every
  result are at least \<open>0.1\<close>.
\<close>

theorem getBounds_default_and_clamp:
  "((\<forall>l\<in>set layers. \<not> layer_contributes l) \<longrightarrow>
      getBounds layers = \<lparr>box_x = 0, box_y = 0, box_width = 100, box_height = 100\<rparr>) \<and>
   ((\<exists>l\<in>set layers. layer_contributes l) \<longrightarrow>
      (\<exists>a b c d. foldl layer_step None layers = Some (a, b, c, d) \<and>
         getBounds layers =
           \<lparr>box_x = a, box_y = b, box_width = max 0.1 (c - a), box_height = max 0.1 (d - b)\<rparr>)) \<and>
   0.1 \<le> box_width (getBounds layers) \<and> 0.1 \<le> box_height (getBounds layers)"
proof (intro conjI impI)
  assume "\<forall>l\<in>set layers. \<not> layer_contributes l"
  then have "foldl layer_step None layers = None"
    by (rule foldl_layer_step_idle)
  then show "getBounds layers = \<lparr>box_x = 0, box_y = 0, box_width = 100, box_height = 100\<rparr>"
    by (simp add: getBounds_def)
next
  show "0.1 \<le> box_width (getBounds layers)"
    by (cases "foldl layer_step None layers") (auto simp: getBounds_def max_def)
next
  show "0.1 \<le> box_height (getBounds layers)"
    by (cases "foldl layer_step None layers") (auto simp: getBounds_def max_def)
next
  assume "\<exists>l\<in>set layers. layer_contributes l"
  then have "foldl layer_step None layers \<noteq> None"
    by (rule foldl_layer_step_busy)
  then show "\<exists>a b c d. foldl layer_step None layers = Some (a, b, c, d) \<and>
         getBounds layers =
           \<lparr>box_x = a, box_y = b, box_width = max 0.1 (c - a), box_height = max 0.1 (d - b)\<rparr>"
    by (cases "foldl layer_step None layers") (auto simp: getBounds_def)
qed


theorem getBounds_default_and_clamp_witness:
  "getBounds [\<lparr>layer_content = [], layer_bounds = None\<rparr>]
     = \<lparr>box_x = 0, box_y = 0, box_width = 100, box_height = 100\<rparr> \<and>
   getBounds [\<lparr>layer_content = [],
               layer_bounds = Some \<lparr>box_x = 1, box_y = 2, box_width = 0.05, box_height = 3\<rparr>\<rparr>]
     = \<lparr>box_x = 1, box_y = 2, box_width = 0.1, box_height = 3\<rparr>"
  using getBounds_default_and_clamp [of "[\<lparr>layer_content = [], layer_bounds = None\<rparr>]"]
        getBounds_default_and_clamp [of "[\<lparr>layer_content = [],
               layer_bounds = Some \<lparr>box_x = 1, box_y = 2, box_width = 0.05, box_height = 3\<rparr>\<rparr>]"]
  by (auto simp: layer_contributes_def has_usable_bounds_def has_usable_content_def
                 layer_step_def add_box_def widen_def)

text \<open>
  C9: \<open>mirror\<close> returns the empty string for an empty path, and returns its input path
  unchanged whenever the bounds object is missing or its width is not positive.
\<close>

theorem mirror_guard_unchanged:
  "mirror [] bounds = [] \<and>
   ((bounds = None \<or> (\<exists>b. bounds = Some b \<and> box_width b \<le> 0)) \<longrightarrow> mirror dPath bounds = dPath)"
  by (auto simp: mirror_def)

theorem mirror_guard_unchanged_witness:
  "mirror [] None = [] \<and>
   mirror ''M1.000 2.000 L3.000 4.000 '' None = ''M1.000 2.000 L3.000 4.000 '' \<and>
   mirror ''M1.000 2.000 L3.000 4.000 ''
      (Some \<lparr>box_x = 5, box_y = 0, box_width = 0, box_height = 7\<rparr>) = ''M1.000 2.000 L3.000 4.000 ''"
  using mirror_guard_unchanged [of None "''M1.000 2.000 L3.000 4.000 ''"]
        mirror_guard_unchanged [of "Some \<lparr>box_x = 5, box_y = 0, box_width = 0, box_height = 7\<rparr>"
                                   "''M1.000 2.000 L3.000 4.000 ''"]
  by simp

section \<open>Properties of the path plotter\<close>

lemma fixed_digits_numeral:
  "fixed_digits (numeral k) r = fixed_digits (pred_numeral k) (r div 10) @ [digit_char (r mod 10)]"
proof -
  have "numeral k = Suc (pred_numeral k)" by (rule numeral_eq_Suc)
  then show ?thesis by (simp only: fixed_digits.simps)
qed
lemma digits_eval:
  "n < 10 \<Longrightarrow> digits n = [digit_char n]"
  "\<not> n < 10 \<Longrightarrow> digits n = digits (n div 10) @ [digit_char (n mod 10)]"
  by (simp_all add: digits.simps)
lemmas toFixed_eval = toFixed_def digits_eval digit_char_def fixed_digits_numeral

lemma or_default_registered:
  "map_of aps tool = Some (Some d) \<Longrightarrow> d > 0 \<Longrightarrow> or_default aps tool e = d"
  by (simp add: or_default_def)

lemma or_default_unregistered:
  "map_of aps tool = None \<Longrightarrow> or_default aps tool e = e"
  by (simp add: or_default_def)

lemma plot_draw_track:
  "\<not> isFirstMove st \<Longrightarrow> \<not> isRegionMode st \<Longrightarrow> hasLastPoint st \<Longrightarrow>
   pathDataArray (plot aps 1 st) = pathDataArray (draw_track aps st)"
  by (simp add: plot_def)

text \<open>
  C3: a draw under a registered circular aperture of diameter \<open>d > 0\<close>, with a previous
  point, outside a region and over a segment longer than \<open>0.001\<close>, appends a closed
  polygon whose four corners are the two end points of the segment, each displaced by
  \<open>(nx, ny)\<close> and by \<open>(-nx, -ny)\<close>, followed by a move back to the current point.
  \<open>(nx, ny)\<close> is perpendicular to the segment and has length \<open>d / 2\<close>. Coordinates are
  written with three decimals.
\<close>

theorem draw_circular_aperture_rectangle:
  assumes "map_of aps (currentTool st) = Some (Some d)" and "d > 0"
    and "\<not> isFirstMove st" and "\<not> isRegionMode st" and "hasLastPoint st"
    and "dx = currentX st - lastX st" and "dy = currentY st - lastY st"
    and "len = sqrt (dx * dx + dy * dy)" and "len > 0.001"
    and "nx = (- dy / len) * (d / 2)" and "ny = (dx / len) * (d / 2)"
  shows "pathDataArray (plot aps 1 st) =
           pathDataArray st @
           [''M'' @ point_text (lastX st + nx) (lastY st + ny) @
            ''L'' @ point_text (currentX st + nx) (currentY st + ny) @
            ''L'' @ point_text (currentX st - nx) (currentY st - ny) @
            ''L'' @ point_text (lastX st - nx) (lastY st - ny) @ ''Z '',
            ''M'' @ point_text (currentX st) (currentY st)] \<and>
         nx * dx + ny * dy = 0 \<and> nx * nx + ny * ny = (d / 2) * (d / 2)"
proof (intro conjI)
  note w = or_default_registered [OF assms(1,2)]
  have "pathDataArray (plot aps 1 st) = pathDataArray (draw_track aps st)"
    using assms(3-5) by (rule plot_draw_track)
  also have "\<dots> = pathDataArray st @
           [''M'' @ point_text (lastX st + nx) (lastY st + ny) @
            ''L'' @ point_text (currentX st + nx) (currentY st + ny) @
            ''L'' @ point_text (currentX st - nx) (currentY st - ny) @
            ''L'' @ point_text (lastX st - nx) (lastY st - ny) @ ''Z '',
            ''M'' @ point_text (currentX st) (currentY st)]"
    using assms(2,6-11) by (simp add: draw_track_def w push_def Let_def)
  finally show "pathDataArray (plot aps 1 st) = pathDataArray st @
           [''M'' @ point_text (lastX st + nx) (lastY st + ny) @
            ''L'' @ point_text (currentX st + nx) (currentY st + ny) @
            ''L'' @ point_text (currentX st - nx) (currentY st - ny) @
            ''L'' @ point_text (lastX st - nx) (lastY st - ny) @ ''Z '',
            ''M'' @ point_text (currentX st) (currentY st)]" .
next
  have len0: "len \<noteq> 0" using assms(9) by simp
  show "nx * dx + ny * dy = 0"
    using len0 by (simp add: assms(10,11) field_simps)
next
  have pos: "len > 0" using assms(9) by simp
  have ll: "len * len = dx * dx + dy * dy"
  proof -
    have "0 \<le> dx * dx + dy * dy" by simp
    then show ?thesis unfolding assms(8) by simp
  qed
  have "nx * nx + ny * ny = (dx * dx + dy * dy) * ((d / 2) * (d / 2)) / (len * len)"
    unfolding assms(10,11) using pos by (simp add: field_simps)
  also have "\<dots> = (len * len) * ((d / 2) * (d / 2)) / (len * len)"
    by (simp only: ll)
  also have "\<dots> = (d / 2) * (d / 2)"
    using pos by simp
  finally show "nx * nx + ny * ny = (d / 2) * (d / 2)" .
qed

theorem draw_circular_aperture_rectangle_witness:
  "pathDataArray (plot [(''10'', Some 1)] 1
      \<lparr>currentX = 10, currentY = 0, lastX = 0, lastY = 0, hasLastPoint = True,
       isFirstMove = False, currentTool = ''10'', lastDCode = 1, isRegionMode = False,
       divisor = 1000000, pathDataArray = [''M0.000 0.000 ''], extent = Some (0, 0, 10, 0)\<rparr>)
   = [''M0.000 0.000 '', ''M0.000 0.500 L10.000 0.500 L10.000 -0.500 L0.000 -0.500 Z '',
      ''M10.000 0.000 '']"
proof -
  have s: "sqrt (10 * 10 + 0 * 0) = (10::real)"
    using real_sqrt_abs [of 10] by simp
  show ?thesis
    using draw_circular_aperture_rectangle [of "[(''10'', Some 1)]"
      "\<lparr>currentX = 10, currentY = 0, lastX = 0, lastY = 0, hasLastPoint = True,
       isFirstMove = False, currentTool = ''10'', lastDCode = 1, isRegionMode = False,
       divisor = 1000000, pathDataArray = [''M0.000 0.000 ''], extent = Some (0, 0, 10, 0)\<rparr>"
      1 10 0 10 0 "1 / 2"] s
    by (simp add: point_text_def toFixed_eval)
qed

text \<open>
  C6 (as the code has it): a draw with a previous point, outside a region, whose segment
  is not longer than \<open>0.001\<close> synthesises no rectangle; the only text appended is one
  line-to command to the current point.
\<close>

theorem zero_length_draw_emits_lineto:
  assumes "\<not> isFirstMove st" and "\<not> isRegionMode st" and "hasLastPoint st"
    and "dx = currentX st - lastX st" and "dy = currentY st - lastY st"
    and "sqrt (dx * dx + dy * dy) \<le> 0.001"
  shows "pathDataArray (plot aps 1 st) =
           pathDataArray st @ [''L'' @ point_text (currentX st) (currentY st)]"
proof -
  have "pathDataArray (plot aps 1 st) = pathDataArray (draw_track aps st)"
    using assms(1-3) by (rule plot_draw_track)
  also have "\<dots> = pathDataArray st @ [''L'' @ point_text (currentX st) (currentY st)]"
    using assms(4-6) by (simp add: draw_track_def push_def Let_def)
  finally show ?thesis .
qed

theorem zero_length_draw_emits_lineto_witness:
  "pathDataArray (plot [(''10'', Some 1)] 1
      \<lparr>currentX = 1, currentY = 1, lastX = 1, lastY = 1, hasLastPoint = True,
       isFirstMove = False, currentTool = ''10'', lastDCode = 1, isRegionMode = False,
       divisor = 1000000, pathDataArray = [''M1.000 1.000 ''], extent = Some (1, 1, 1, 1)\<rparr>)
   = [''M1.000 1.000 '', ''L1.000 1.000 '']"
  using zero_length_draw_emits_lineto [of
      "\<lparr>currentX = 1, currentY = 1, lastX = 1, lastY = 1, hasLastPoint = True,
       isFirstMove = False, currentTool = ''10'', lastDCode = 1, isRegionMode = False,
       divisor = 1000000, pathDataArray = [''M1.000 1.000 ''], extent = Some (1, 1, 1, 1)\<rparr>"
      0 0 "[(''10'', Some 1)]"]
  by (simp add: point_text_def toFixed_eval)

theorem zero_length_draw_counterexample:
  "pathDataArray (plot [(''10'', Some 1)] 1
      \<lparr>currentX = 1, currentY = 1, lastX = 1, lastY = 1, hasLastPoint = True,
       isFirstMove = False, currentTool = ''10'', lastDCode = 1, isRegionMode = False,
       divisor = 1000000, pathDataArray = [''M1.000 1.000 ''], extent = Some (1, 1, 1, 1)\<rparr>)
   \<noteq> pathDataArray
      \<lparr>currentX = 1, currentY = 1, lastX = 1, lastY = 1, hasLastPoint = True,
       isFirstMove = False, currentTool = ''10'', lastDCode = 1, isRegionMode = False,
       divisor = 1000000, pathDataArray = [''M1.000 1.000 ''], extent = Some (1, 1, 1, 1)\<rparr>"
  by (simp add: plot_def draw_track_def push_def)

subsection \<open>The stroke of renderGerberWithCustomParser\<close>

text \<open>
  In the second renderer the commands come from an external parser; what is modelled is
  the interpolate operation outside a region: the tool object, the stroke width and the
  element appended to \<open>svgContent\<close>. The arc command of the circular modes is a parameter.
\<close>

record tool =
  tool_shape :: string
  tool_params :: "real list"

text \<open>\<open>currentTool ? tools[currentTool] : null\<close>.\<close>

definition lookup_tool :: "(string \<times> tool) list \<Rightarrow> string option \<Rightarrow> tool option" where
  "lookup_tool tools tool_code =
     (case tool_code of
        None \<Rightarrow> None
      | Some code \<Rightarrow> if code = [] then None else map_of tools code)"

text \<open>\<open>width\<close>; the value \<open>None\<close> is \<open>params[0]\<close> of an empty parameter list.\<close>

definition stroke_width :: "tool option \<Rightarrow> real option" where
  "stroke_width toolObj =
     (case toolObj of
        None \<Rightarrow> Some 0.1
      | Some t \<Rightarrow>
          if tool_shape t = ''circle'' \<or> tool_shape t = ''rect''
          then (case tool_params t of [] \<Rightarrow> None | w # _ \<Rightarrow> Some w)
          else Some 0.1)"

text \<open>\<open>fmt(n) = toMM(n).toFixed(4)\<close> with \<open>toMM(n) = n * unitScale\<close>.\<close>

definition fmt :: "real \<Rightarrow> real option \<Rightarrow> string" where
  "fmt unitScale n = (case n of None \<Rightarrow> ''NaN'' | Some v \<Rightarrow> toFixed 4 (v * unitScale))"

definition custom_draw ::
  "(string \<times> tool) list \<Rightarrow> string option \<Rightarrow> real \<Rightarrow> bool \<Rightarrow> string \<Rightarrow>
   real \<Rightarrow> real \<Rightarrow> real \<Rightarrow> real \<Rightarrow> string" where
  \<open>custom_draw tools tool_code unitScale is_linear arcCmd cx cy x y =
     (let width = stroke_width (lookup_tool tools tool_code)
      in if is_linear then
           ''<line x1="'' @ fmt unitScale (Some cx) @ ''" y1="'' @ fmt unitScale (Some cy) @
           ''" x2="'' @ fmt unitScale (Some x) @ ''" y2="'' @ fmt unitScale (Some y) @
           ''" stroke="currentColor" stroke-width="'' @ fmt unitScale width @
           ''" stroke-linecap="round" />''
         else
           ''<path d="M '' @ fmt unitScale (Some cx) @ '' '' @ fmt unitScale (Some cy) @ '' '' @
           arcCmd @ ''" stroke="currentColor" stroke-width="'' @ fmt unitScale width @
           ''" fill="none" stroke-linecap="round" />'')\<close>

text \<open>
  The flash of the same renderer. \<open>param ps i\<close> is \<open>params[i]\<close>, \<open>None\<close> when there is no
  such parameter (\<open>undefined\<close>, which the arithmetic turns into \<open>NaN\<close>). The macro table and
  \<open>renderMacro\<close> are parameters: \<open>macros shape\<close> says whether a macro of that name is
  stored, \<open>renderMacro\<close> gives the text that rendering it appends. The result is the text
  appended to \<open>svgContent\<close>; the empty text for \<open>continue\<close> and for a shape of no branch.
\<close>

definition param :: "real list \<Rightarrow> nat \<Rightarrow> real option" where
  "param ps i = (if i < length ps then Some (ps ! i) else None)"

definition custom_flash ::
  "(string \<times> tool) list \<Rightarrow> (string \<Rightarrow> bool) \<Rightarrow> (string \<Rightarrow> real list \<Rightarrow> real \<Rightarrow> real \<Rightarrow> string) \<Rightarrow>
   string option \<Rightarrow> real \<Rightarrow> real \<Rightarrow> real \<Rightarrow> string" where
  \<open>custom_flash tools macros renderMacro tool_code unitScale x y =
     (case lookup_tool tools tool_code of
        None \<Rightarrow> []
      | Some toolObj \<Rightarrow>
          (let w = param (tool_params toolObj) 0; h = param (tool_params toolObj) 1
           in if macros (tool_shape toolObj)
              then renderMacro (tool_shape toolObj) (tool_params toolObj) x y
              else if tool_shape toolObj = ''circle'' then
                ''<circle cx="'' @ fmt unitScale (Some x) @ ''" cy="'' @ fmt unitScale (Some y) @
                ''" r="'' @ fmt unitScale (map_option (\<lambda>d. d / 2) w) @
                ''" fill="currentColor" />''
              else if tool_shape toolObj = ''rect'' then
                ''<rect x="'' @ fmt unitScale (map_option (\<lambda>a. x - a / 2) w) @
                ''" y="'' @ fmt unitScale (map_option (\<lambda>a. y - a / 2) h) @
                ''" width="'' @ fmt unitScale w @ ''" height="'' @ fmt unitScale h @
                ''" fill="currentColor" />''
              else if tool_shape toolObj = ''obround'' then
                ''<rect x="'' @ fmt unitScale (map_option (\<lambda>a. x - a / 2) w) @
                ''" y="'' @ fmt unitScale (map_option (\<lambda>a. y - a / 2) h) @
                ''" width="'' @ fmt unitScale w @ ''" height="'' @ fmt unitScale h @
                ''" rx="'' @
                fmt unitScale (case (w, h) of (Some a, Some b) \<Rightarrow> Some (min a b / 2) | _ \<Rightarrow> None) @
                ''" fill="currentColor" />''
              else []))\<close>

text \<open>
  C8 (as the code has it): when the current tool was never registered, \<open>convert\<close> appends
  for a draw one bare move-to or line-to command to the current point (no rectangle, so
  no width reaches the output) and for a flash the two half circles of radius \<open>0.2\<close>, half
  the default diameter \<open>0.4\<close>; \<open>renderGerberWithCustomParser\<close> appends for a draw outside a
  region the line or arc element with the default stroke width \<open>0.1\<close>, and for a flash
  nothing.
\<close>

theorem unregistered_aperture_fallback:
  assumes "map_of aps (currentTool st) = None" and "lookup_tool tools tool_code = None"
  shows \<open>pathDataArray (plot aps 1 st) =
           pathDataArray st @
           [(if isFirstMove st \<or> \<not> hasLastPoint st then ''M'' else ''L'') @
            point_text (currentX st) (currentY st)] \<and>
         pathDataArray (plot aps 3 st) =
           pathDataArray st @
           [''M'' @ toFixed 3 (currentX st - 0.2) @ '' '' @ toFixed 3 (currentY st) @
            '' A'' @ toFixed 3 0.2 @ '' '' @ toFixed 3 0.2 @ '' 0 1 0 '' @
            toFixed 3 (currentX st + 0.2) @ '' '' @ toFixed 3 (currentY st) @
            '' A'' @ toFixed 3 0.2 @ '' '' @ toFixed 3 0.2 @ '' 0 1 0 '' @
            toFixed 3 (currentX st - 0.2) @ '' '' @ toFixed 3 (currentY st) @ '' Z ''] \<and>
         custom_draw tools tool_code unitScale True arcCmd cx cy x y =
           ''<line x1="'' @ fmt unitScale (Some cx) @ ''" y1="'' @ fmt unitScale (Some cy) @
           ''" x2="'' @ fmt unitScale (Some x) @ ''" y2="'' @ fmt unitScale (Some y) @
           ''" stroke="currentColor" stroke-width="'' @ fmt unitScale (Some 0.1) @
           ''" stroke-linecap="round" />'' \<and>
         custom_draw tools tool_code unitScale False arcCmd cx cy x y =
           ''<path d="M '' @ fmt unitScale (Some cx) @ '' '' @ fmt unitScale (Some cy) @ '' '' @
           arcCmd @ ''" stroke="currentColor" stroke-width="'' @ fmt unitScale (Some 0.1) @
           ''" fill="none" stroke-linecap="round" />'' \<and>
         custom_flash tools macros renderMacro tool_code unitScale x y = []\<close>
proof (intro conjI)
  note u = or_default_unregistered [OF assms(1)]
  show "pathDataArray (plot aps 1 st) =
           pathDataArray st @
           [(if isFirstMove st \<or> \<not> hasLastPoint st then ''M'' else ''L'') @
            point_text (currentX st) (currentY st)]"
  proof (cases "isFirstMove st \<or> isRegionMode st \<or> \<not> hasLastPoint st")
    case True
    then show ?thesis
      by (cases "isFirstMove st \<or> \<not> hasLastPoint st") (auto simp: plot_def push_def)
  next
    case False
    then have "pathDataArray (plot aps 1 st) = pathDataArray (draw_track aps st)"
      by (simp add: plot_draw_track)
    also have "\<dots> = pathDataArray st @ [''L'' @ point_text (currentX st) (currentY st)]"
      by (simp add: draw_track_def u push_def Let_def)
    finally show ?thesis using False by simp
  qed
  show "pathDataArray (plot aps 3 st) =
           pathDataArray st @
           [''M'' @ toFixed 3 (currentX st - 0.2) @ '' '' @ toFixed 3 (currentY st) @
            '' A'' @ toFixed 3 0.2 @ '' '' @ toFixed 3 0.2 @ '' 0 1 0 '' @
            toFixed 3 (currentX st + 0.2) @ '' '' @ toFixed 3 (currentY st) @
            '' A'' @ toFixed 3 0.2 @ '' '' @ toFixed 3 0.2 @ '' 0 1 0 '' @
            toFixed 3 (currentX st - 0.2) @ '' '' @ toFixed 3 (currentY st) @ '' Z '']"
    by (simp add: plot_def push_def flash_text_def u Let_def)
  have w: "stroke_width (lookup_tool tools tool_code) = Some 0.1"
    by (simp add: assms(2) stroke_width_def)
  show \<open>custom_draw tools tool_code unitScale True arcCmd cx cy x y =
           ''<line x1="'' @ fmt unitScale (Some cx) @ ''" y1="'' @ fmt unitScale (Some cy) @
           ''" x2="'' @ fmt unitScale (Some x) @ ''" y2="'' @ fmt unitScale (Some y) @
           ''" stroke="currentColor" stroke-width="'' @ fmt unitScale (Some 0.1) @
           ''" stroke-linecap="round" />''\<close>
    unfolding custom_draw_def Let_def w by simp
  show \<open>custom_draw tools tool_code unitScale False arcCmd cx cy x y =
           ''<path d="M '' @ fmt unitScale (Some cx) @ '' '' @ fmt unitScale (Some cy) @ '' '' @
           arcCmd @ ''" stroke="currentColor" stroke-width="'' @ fmt unitScale (Some 0.1) @
           ''" fill="none" stroke-linecap="round" />''\<close>
    unfolding custom_draw_def Let_def w by simp
  show "custom_flash tools macros renderMacro tool_code unitScale x y = []"
    by (simp add: custom_flash_def assms(2))
qed

theorem unregistered_aperture_fallback_witness:
  \<open>pathDataArray (plot [(''10'', Some 1)] 1
      \<lparr>currentX = 3, currentY = 4, lastX = 0, lastY = 0, hasLastPoint = True,
       isFirstMove = False, currentTool = ''11'', lastDCode = 1, isRegionMode = False,
       divisor = 1000000, pathDataArray = [''M0.000 0.000 ''], extent = Some (0, 0, 3, 4)\<rparr>)
   = [''M0.000 0.000 '', ''L3.000 4.000 ''] \<and>
   pathDataArray (plot [(''10'', Some 1)] 3
      \<lparr>currentX = 3, currentY = 4, lastX = 0, lastY = 0, hasLastPoint = True,
       isFirstMove = False, currentTool = ''11'', lastDCode = 1, isRegionMode = False,
       divisor = 1000000, pathDataArray = [''M0.000 0.000 ''], extent = Some (0, 0, 3, 4)\<rparr>)
   = [''M0.000 0.000 '',
      ''M2.800 4.000 A0.200 0.200 0 1 0 3.200 4.000 A0.200 0.200 0 1 0 2.800 4.000 Z ''] \<and>
   custom_draw [(''10'', \<lparr>tool_shape = ''circle'', tool_params = [1]\<rparr>)] (Some ''11'') 1 True []
      0 0 3 4
   = ''<line x1="0.0000" y1="0.0000" x2="3.0000" y2="4.0000" stroke="currentColor" stroke-width="0.1000" stroke-linecap="round" />'' \<and>
   custom_flash [(''10'', \<lparr>tool_shape = ''circle'', tool_params = [1]\<rparr>)] (\<lambda>shape. False)
      (\<lambda>shape ps x y. []) (Some ''11'') 1 3 4 = []\<close>
  using unregistered_aperture_fallback [of "[(''10'', Some 1)]"
      "\<lparr>currentX = 3, currentY = 4, lastX = 0, lastY = 0, hasLastPoint = True,
       isFirstMove = False, currentTool = ''11'', lastDCode = 1, isRegionMode = False,
       divisor = 1000000, pathDataArray = [''M0.000 0.000 ''], extent = Some (0, 0, 3, 4)\<rparr>"
      "[(''10'', \<lparr>tool_shape = ''circle'', tool_params = [1]\<rparr>)]" "Some ''11''" 1 "[]" 0 0 3 4
      "\<lambda>shape. False" "\<lambda>shape ps x y. []"]
  by (simp add: point_text_def toFixed_eval lookup_tool_def fmt_def)

text \<open>
  With the tool \<open>11\<close> never registered: the flash of \<open>renderGerberWithCustomParser\<close> appends
  nothing, where the registered tool \<open>10\<close> gives its circle; and the draw of \<open>convert\<close> over
  the segment from \<open>(0, 0)\<close> to \<open>(3, 4)\<close> appends a line-to alone, with no width in it.
\<close>

theorem unregistered_aperture_counterexample:
  \<open>custom_flash [(''10'', \<lparr>tool_shape = ''circle'', tool_params = [1]\<rparr>)] (\<lambda>shape. False)
      (\<lambda>shape ps x y. []) (Some ''11'') 1 3 4 = [] \<and>
   custom_flash [(''10'', \<lparr>tool_shape = ''circle'', tool_params = [1]\<rparr>)] (\<lambda>shape. False)
      (\<lambda>shape ps x y. []) (Some ''10'') 1 3 4
   = ''<circle cx="3.0000" cy="4.0000" r="0.5000" fill="currentColor" />'' \<and>
   pathDataArray (plot [(''10'', Some 1)] 1
      \<lparr>currentX = 3, currentY = 4, lastX = 0, lastY = 0, hasLastPoint = True,
       isFirstMove = False, currentTool = ''11'', lastDCode = 1, isRegionMode = False,
       divisor = 1000000, pathDataArray = [''M0.000 0.000 ''], extent = Some (0, 0, 3, 4)\<rparr>)
   = [''M0.000 0.000 '', ''L3.000 4.000 '']\<close>
proof (intro conjI)
  show \<open>custom_flash [(''10'', \<lparr>tool_shape = ''circle'', tool_params = [1]\<rparr>)] (\<lambda>shape. False)
      (\<lambda>shape ps x y. []) (Some ''11'') 1 3 4 = []\<close>
    by (simp add: custom_flash_def lookup_tool_def)
  show \<open>custom_flash [(''10'', \<lparr>tool_shape = ''circle'', tool_params = [1]\<rparr>)] (\<lambda>shape. False)
      (\<lambda>shape ps x y. []) (Some ''10'') 1 3 4
   = ''<circle cx="3.0000" cy="4.0000" r="0.5000" fill="currentColor" />''\<close>
    by (simp add: custom_flash_def lookup_tool_def param_def fmt_def toFixed_eval)
  have "sqrt 25 = 5"
    using real_sqrt_abs [of 5] by simp
  then show \<open>pathDataArray (plot [(''10'', Some 1)] 1
      \<lparr>currentX = 3, currentY = 4, lastX = 0, lastY = 0, hasLastPoint = True,
       isFirstMove = False, currentTool = ''11'', lastDCode = 1, isRegionMode = False,
       divisor = 1000000, pathDataArray = [''M0.000 0.000 ''], extent = Some (0, 0, 3, 4)\<rparr>)
   = [''M0.000 0.000 '', ''L3.000 4.000 '']\<close>
    by (simp add: plot_def draw_track_def or_default_def push_def point_text_def toFixed_eval Let_def)
qed

section \<open>Coordinate decoding\<close>

definition sign_of :: "string \<Rightarrow> real" where
  "sign_of sg = (if sg = ''-'' then - 1 else 1)"

definition is_sign :: "string \<Rightarrow> bool" where
  "is_sign sg = (sg = [] \<or> sg = ''-'' \<or> sg = ''+'')"

lemma digit_not_special:
  "is_digit c \<Longrightarrow> c \<noteq> CHR ''.'' \<and> c \<noteq> CHR ''-'' \<and> c \<noteq> CHR ''+'' \<and> \<not> js_ws c"
  by (auto simp: is_digit_def js_ws_def)

lemma match_num_cases:
  assumes "match_num s = Some (tok, r')"
  shows "\<exists>sg d1 d2. is_sign sg \<and> (\<forall>c\<in>set d1. is_digit c) \<and> (\<forall>c\<in>set d2. is_digit c) \<and>
           ((tok = sg @ d1 @ ''.'' @ d2 \<and> d2 \<noteq> []) \<or> (tok = sg @ d1 \<and> d1 \<noteq> []))"
proof -
  define sg where "sg = (if s \<noteq> [] \<and> (hd s = CHR ''-'' \<or> hd s = CHR ''+'') then [hd s] else [])"
  define r where "r = drop (length sg) s"
  define d1 where "d1 = takeWhile is_digit r"
  define r1 where "r1 = dropWhile is_digit r"
  define d2 where "d2 = (if r1 \<noteq> [] \<and> hd r1 = CHR ''.'' then takeWhile is_digit (tl r1) else [])"
  have sg: "is_sign sg" by (auto simp: sg_def is_sign_def)
  have d1: "\<forall>c\<in>set d1. is_digit c" unfolding d1_def by (auto dest: set_takeWhileD)
  have d2: "\<forall>c\<in>set d2. is_digit c" unfolding d2_def by (auto dest: set_takeWhileD)
  from assms have "(tok = sg @ d1 @ ''.'' @ d2 \<and> d2 \<noteq> []) \<or> (tok = sg @ d1 \<and> d1 \<noteq> [])"
    unfolding match_num_def Let_def sg_def [symmetric] r_def [symmetric] d1_def [symmetric]
      r1_def [symmetric] d2_def [symmetric]
    by (auto split: if_splits)
  with sg d1 d2 show ?thesis by blast
qed

lemma takeWhile_digits_all:
  "\<forall>c\<in>set ds. is_digit c \<Longrightarrow> takeWhile is_digit (ds @ CHR ''.'' # t) = ds"
  "\<forall>c\<in>set ds. is_digit c \<Longrightarrow> dropWhile is_digit (ds @ CHR ''.'' # t) = CHR ''.'' # t"
  "\<forall>c\<in>set ds. is_digit c \<Longrightarrow> takeWhile is_digit ds = ds"
  "\<forall>c\<in>set ds. is_digit c \<Longrightarrow> dropWhile is_digit ds = []"
  by (induction ds) (auto simp: is_digit_def)

lemma parseFloat_unsigned:
  assumes "\<forall>c\<in>set d1. is_digit c" and "\<forall>c\<in>set d2. is_digit c"
  shows "d1 \<noteq> [] \<Longrightarrow> parseFloat d1 = Some (real (nat_of_digits d1))"
    and "d2 \<noteq> [] \<Longrightarrow> parseFloat (d1 @ ''.'' @ d2) = Some (real (nat_of_digits d1) + frac_val d2)"
proof -
  assume ne: "d1 \<noteq> []"
  have hd: "\<not> js_ws (hd d1) \<and> hd d1 \<noteq> CHR ''-'' \<and> hd d1 \<noteq> CHR ''+''"
  proof (cases d1)
    case Nil
    with ne show ?thesis by simp
  next
    case (Cons c cs)
    with assms(1) have "is_digit c" by simp
    from digit_not_special [OF this] Cons show ?thesis by simp
  qed
  have dw: "dropWhile js_ws d1 = d1"
    using hd ne by (cases d1) auto
  have fv: "frac_val [] = 0"
    by (simp add: frac_val_def nat_of_digits_def)
  show "parseFloat d1 = Some (real (nat_of_digits d1))"
    unfolding parseFloat_def Let_def dw
    using hd ne
    by (simp add: takeWhile_digits_all(3,4) [OF assms(1)] exponent_part_def scale10_def fv)
next
  assume ne: "d2 \<noteq> []"
  have hd: "\<not> js_ws (hd (d1 @ ''.'' @ d2)) \<and> hd (d1 @ ''.'' @ d2) \<noteq> CHR ''-'' \<and> hd (d1 @ ''.'' @ d2) \<noteq> CHR ''+''"
  proof (cases d1)
    case Nil
    then show ?thesis by (simp add: js_ws_def)
  next
    case (Cons c cs)
    with assms(1) have "is_digit c" by simp
    from digit_not_special [OF this] Cons show ?thesis by simp
  qed
  have dw: "dropWhile js_ws (d1 @ ''.'' @ d2) = d1 @ ''.'' @ d2"
    using hd by (cases "d1 @ ''.'' @ d2") auto
  show "parseFloat (d1 @ ''.'' @ d2) = Some (real (nat_of_digits d1) + frac_val d2)"
    unfolding parseFloat_def Let_def dw
    using hd ne
    by (simp add: takeWhile_digits_all(1,2) [OF assms(1)] takeWhile_digits_all(3,4) [OF assms(2)]
          exponent_part_def scale10_def)
qed

lemma parseFloat_signed:
  assumes "is_sign sg" and "u \<noteq> []"
    and "\<not> js_ws (hd u)" and "hd u \<noteq> CHR ''-''" and "hd u \<noteq> CHR ''+''"
  shows "parseFloat (sg @ u) = map_option (\<lambda>v. sign_of sg * v) (parseFloat u)"
proof -
  have dw: "dropWhile js_ws u = u"
    using assms(2,3) by (cases u) auto
  have ws: "\<not> js_ws (CHR ''-'')" "\<not> js_ws (CHR ''+'')"
    by (simp_all add: js_ws_def)
  from assms(1) consider "sg = []" | "sg = ''-''" | "sg = ''+''"
    by (auto simp: is_sign_def)
  then show ?thesis
  proof cases
    case 1
    then show ?thesis
      by (cases "parseFloat u") (simp_all add: sign_of_def)
  next
    case 2
    show ?thesis
      unfolding 2 parseFloat_def Let_def
      using assms(2,4,5) ws by (simp add: dw sign_of_def)
  next
    case 3
    show ?thesis
      unfolding 3 parseFloat_def Let_def
      using assms(2,4,5) ws by (simp add: dw sign_of_def)
  qed
qed

lemma digits_hd:
  assumes "\<forall>c\<in>set d1. is_digit c"
  shows "\<not> js_ws (hd (d1 @ CHR ''.'' # d2)) \<and> hd (d1 @ CHR ''.'' # d2) \<noteq> CHR ''-'' \<and>
         hd (d1 @ CHR ''.'' # d2) \<noteq> CHR ''+''"
    and "d1 \<noteq> [] \<Longrightarrow> \<not> js_ws (hd d1) \<and> hd d1 \<noteq> CHR ''-'' \<and> hd d1 \<noteq> CHR ''+''"
proof -
  show "\<not> js_ws (hd (d1 @ CHR ''.'' # d2)) \<and> hd (d1 @ CHR ''.'' # d2) \<noteq> CHR ''-'' \<and>
         hd (d1 @ CHR ''.'' # d2) \<noteq> CHR ''+''"
    using assms by (cases d1) (auto simp: js_ws_def is_digit_def)
  show "d1 \<noteq> [] \<Longrightarrow> \<not> js_ws (hd d1) \<and> hd d1 \<noteq> CHR ''-'' \<and> hd d1 \<noteq> CHR ''+''"
    using assms by (cases d1) (auto simp: js_ws_def is_digit_def)
qed

lemma sign_digits_no_point:
  assumes "is_sign sg" and "\<forall>c\<in>set d1. is_digit c"
  shows "CHR ''.'' \<notin> set (sg @ d1)"
proof -
  from assms(1) consider "sg = []" | "sg = ''-''" | "sg = ''+''"
    by (auto simp: is_sign_def)
  then have "CHR ''.'' \<notin> set sg"
    by cases simp_all
  moreover have "CHR ''.'' \<notin> set d1"
    using assms(2) digit_not_special by blast
  ultimately show ?thesis by simp
qed

text \<open>
  One coordinate under a divisor \<open>10^k\<close>: the text that the number pattern captures behind
  an axis letter is a sign and digits, with or without a point followed by digits.
  Without a point the decoded value is the integer written by the digits divided by
  \<open>10^k\<close>; with a point it is the value written, whatever \<open>k\<close> is.
\<close>

lemma read_coord_decoding:
  assumes "after_char axis block = Some rest" and "match_num rest = Some (tok, rest')"
  shows "\<exists>sg d1 d2. is_sign sg \<and> (\<forall>c\<in>set d1. is_digit c) \<and> (\<forall>c\<in>set d2. is_digit c) \<and>
           (if CHR ''.'' \<in> set tok
            then tok = sg @ d1 @ ''.'' @ d2 \<and> d2 \<noteq> [] \<and>
                 read_coord axis block (10 ^ k) =
                   Some (sign_of sg * (real (nat_of_digits d1) +
                                       real (nat_of_digits d2) / 10 ^ length d2))
            else tok = sg @ d1 \<and> d1 \<noteq> [] \<and>
                 read_coord axis block (10 ^ k) =
                   Some (sign_of sg * real (nat_of_digits d1) / 10 ^ k))"
proof -
  from match_num_cases [OF assms(2)] obtain sg d1 d2 where
    sg: "is_sign sg" and d1: "\<forall>c\<in>set d1. is_digit c" and d2: "\<forall>c\<in>set d2. is_digit c" and
    form: "(tok = sg @ d1 @ ''.'' @ d2 \<and> d2 \<noteq> []) \<or> (tok = sg @ d1 \<and> d1 \<noteq> [])"
    by blast
  from form show ?thesis
  proof
    assume a: "tok = sg @ d1 @ ''.'' @ d2 \<and> d2 \<noteq> []"
    then have tok: "tok = sg @ (d1 @ ''.'' @ d2)" and ne: "d2 \<noteq> []" by simp_all
    have dot: "CHR ''.'' \<in> set tok" unfolding tok by simp
    have u: "parseFloat (d1 @ ''.'' @ d2) = Some (real (nat_of_digits d1) + frac_val d2)"
      using ne by (rule parseFloat_unsigned(2) [OF d1 d2])
    have h: "\<not> js_ws (hd (d1 @ ''.'' @ d2))" "hd (d1 @ ''.'' @ d2) \<noteq> CHR ''-''"
            "hd (d1 @ ''.'' @ d2) \<noteq> CHR ''+''"
      using digits_hd(1) [OF d1, of d2] by simp_all
    have "parseFloat tok = map_option (\<lambda>v. sign_of sg * v) (parseFloat (d1 @ ''.'' @ d2))"
      unfolding tok by (rule parseFloat_signed [OF sg _ h]) simp
    then have pf: "parseFloat tok = Some (sign_of sg * (real (nat_of_digits d1) + frac_val d2))"
      by (simp only: u option.map)
    have rc: "read_coord axis block (10 ^ k) =
                 Some (sign_of sg * (real (nat_of_digits d1) +
                                     real (nat_of_digits d2) / 10 ^ length d2))"
      using assms pf dot by (simp add: read_coord_def frac_val_def)
    have body: "is_sign sg \<and> (\<forall>c\<in>set d1. is_digit c) \<and> (\<forall>c\<in>set d2. is_digit c) \<and>
           (if CHR ''.'' \<in> set tok
            then tok = sg @ d1 @ ''.'' @ d2 \<and> d2 \<noteq> [] \<and>
                 read_coord axis block (10 ^ k) =
                   Some (sign_of sg * (real (nat_of_digits d1) +
                                       real (nat_of_digits d2) / 10 ^ length d2))
            else tok = sg @ d1 \<and> d1 \<noteq> [] \<and>
                 read_coord axis block (10 ^ k) =
                   Some (sign_of sg * real (nat_of_digits d1) / 10 ^ k))"
      using sg d1 d2 dot a rc by (simp only: if_True simp_thms)
    show ?thesis
      by (rule exI [of _ sg], rule exI [of _ d1], rule exI [of _ d2], rule body)
  next
    assume a: "tok = sg @ d1 \<and> d1 \<noteq> []"
    then have tok: "tok = sg @ d1" and ne: "d1 \<noteq> []" by simp_all
    have nodot: "CHR ''.'' \<notin> set tok"
      unfolding tok by (rule sign_digits_no_point [OF sg d1])
    have u: "parseFloat d1 = Some (real (nat_of_digits d1))"
      using ne by (rule parseFloat_unsigned(1) [OF d1 d1])
    have h: "\<not> js_ws (hd d1)" "hd d1 \<noteq> CHR ''-''" "hd d1 \<noteq> CHR ''+''"
      using digits_hd(2) [OF d1 ne] by simp_all
    have "parseFloat tok = map_option (\<lambda>v. sign_of sg * v) (parseFloat d1)"
      unfolding tok by (rule parseFloat_signed [OF sg ne h])
    then have pf: "parseFloat tok = Some (sign_of sg * real (nat_of_digits d1))"
      by (simp only: u option.map)
    have rc: "read_coord axis block (10 ^ k) = Some (sign_of sg * real (nat_of_digits d1) / 10 ^ k)"
      using assms pf nodot by (simp add: read_coord_def)
    have body: "is_sign sg \<and> (\<forall>c\<in>set d1. is_digit c) \<and> (\<forall>c\<in>set d2. is_digit c) \<and>
           (if CHR ''.'' \<in> set tok
            then tok = sg @ d1 @ ''.'' @ d2 \<and> d2 \<noteq> [] \<and>
                 read_coord axis block (10 ^ k) =
                   Some (sign_of sg * (real (nat_of_digits d1) +
                                       real (nat_of_digits d2) / 10 ^ length d2))
            else tok = sg @ d1 \<and> d1 \<noteq> [] \<and>
                 read_coord axis block (10 ^ k) =
                   Some (sign_of sg * real (nat_of_digits d1) / 10 ^ k))"
      using sg d1 d2 nodot a rc by (simp only: if_False simp_thms)
    show ?thesis
      by (rule exI [of _ sg], rule exI [of _ d1], rule exI [of _ d2], rule body)
  qed
qed

section \<open>Whole conversions\<close>

lemma process_block_empty:
  "trim raw = [] \<Longrightarrow> process_block aps inc st raw = st"
  by (simp add: process_block_def)

lemma process_block_param:
  "trim raw = block \<Longrightarrow> block \<noteq> [] \<Longrightarrow> startsWith (map toUpper block) ''%'' \<Longrightarrow>
   process_block aps inc st raw =
     (case first_match match_xy (map toUpper block) of
        Some d \<Rightarrow> st\<lparr>divisor := 10 ^ digit_val d\<rparr>
      | None \<Rightarrow> st)"
  by (simp add: process_block_def)

lemma process_block_operation:
  "trim raw = block \<Longrightarrow> block \<noteq> [] \<Longrightarrow> \<not> startsWith (map toUpper block) ''%'' \<Longrightarrow>
   first_match match_tool (map toUpper block) = Some code \<Longrightarrow> nat_of_digits code < 10 \<Longrightarrow>
   process_block aps inc st raw = block_operation aps inc st block"
  by (simp add: process_block_def)

lemma convert_steps:
  "gerberText \<noteq> [] \<Longrightarrow> parse_apertures gerberText = aps \<Longrightarrow>
   parse_format gerberText = (decimalPlaces, coordinateMode) \<Longrightarrow>
   (coordinateMode = CHR ''I'' \<or> includes_str gerberText ''G91'') = inc \<Longrightarrow>
   split_marks [] (replace_stars gerberText) = blocks \<Longrightarrow>
   foldl (process_block aps inc) (init_state decimalPlaces) blocks = st \<Longrightarrow>
   convert gerberText =
     (trim (concat (pathDataArray st)),
      case extent st of
        None \<Rightarrow> zero_box
      | Some (a, b, c, d) \<Rightarrow> \<lparr>box_x = a, box_y = b, box_width = c - a, box_height = d - b\<rparr>)"
  by (auto simp: convert_def Let_def)

lemmas num_eval = match_num_def parseFloat_def is_digit_def js_ws_def nat_of_digits_def
  digit_val_def frac_val_def exponent_part_def scale10_def

lemmas class_eval = trim_def js_ws_def toUpper_def startsWith_def

lemma convert_single_flash_header:
  "parse_apertures ''%FSLAX46Y46*%%ADD10C,1.000*%D10*X1000000Y2000000D03*'' = [(''10'', Some 1)]"
  "parse_format ''%FSLAX46Y46*%%ADD10C,1.000*%D10*X1000000Y2000000D03*'' = (6, CHR ''A'')"
  "includes_str ''%FSLAX46Y46*%%ADD10C,1.000*%D10*X1000000Y2000000D03*'' ''G91'' = False"
  "split_marks [] (replace_stars ''%FSLAX46Y46*%%ADD10C,1.000*%D10*X1000000Y2000000D03*'') =
     [''%FSLAX46Y46'', ''%%ADD10C,1.000'', ''%D10'', ''X1000000Y2000000D03'', []]"
     apply (simp add: parse_apertures_def match_add_def num_eval)
    apply (simp add: parse_format_def match_fs_def is_digit_def digit_val_def)
   apply (simp add: startsWith_def)
  apply (simp add: replace_stars_def)
  done

lemma convert_single_flash_params:
  "process_block aps inc (init_state 6) ''%FSLAX46Y46'' = init_state 6"
  "process_block aps inc st ''%%ADD10C,1.000'' = st"
  "process_block aps inc st ''%D10'' = st"
  "process_block aps inc st [] = st"
proof -
  have "first_match match_xy ''%FSLAX46Y46'' = Some (CHR ''6'')"
    by (simp add: is_digit_def)
  then show "process_block aps inc (init_state 6) ''%FSLAX46Y46'' = init_state 6"
    using process_block_param [of "''%FSLAX46Y46''" "''%FSLAX46Y46''" aps inc "init_state 6"]
    by (simp add: class_eval digit_val_def init_state_def)
  have "first_match match_xy ''%%ADD10C,1.000'' = None"
    by (simp add: is_digit_def)
  then show "process_block aps inc st ''%%ADD10C,1.000'' = st"
    using process_block_param [of "''%%ADD10C,1.000''" "''%%ADD10C,1.000''" aps inc st]
    by (simp add: class_eval)
  have "first_match match_xy ''%D10'' = None"
    by simp
  then show "process_block aps inc st ''%D10'' = st"
    using process_block_param [of "''%D10''" "''%D10''" aps inc st]
    by (simp add: class_eval)
  show "process_block aps inc st [] = st"
    by (simp add: process_block_empty trim_def)
qed

lemma convert_single_flash_flash1:
  "process_block [(''10'', Some 1)] False
      (init_state 6)
      ''X1000000Y2000000D03'' =
     \<lparr>currentX = 1, currentY = 2, lastX = 0, lastY = 0, hasLastPoint = False,
       isFirstMove = True, currentTool = ''10'', lastDCode = 3, isRegionMode = False,
       divisor = 1000000, pathDataArray = [''M0.500 2.000 A0.500 0.500 0 1 0 1.500 2.000 A0.500 0.500 0 1 0 0.500 2.000 Z ''],
       extent = Some (1, 2, 1, 2)\<rparr>"
proof -
  have c: "first_match match_tool ''X1000000Y2000000D03'' = Some ''03''"
    by (simp add: is_digit_def)
  have g: "apply_gcodes ''X1000000Y2000000D03'' st = (st, None)" for st
    by (simp add: apply_gcodes_def startsWith_def)
  have x: "read_coord (CHR ''X'') ''X1000000Y2000000D03'' 1000000 = Some 1"
    by (simp add: read_coord_def after_char_def num_eval)
  have y: "read_coord (CHR ''Y'') ''X1000000Y2000000D03'' 1000000 = Some 2"
    by (simp add: read_coord_def after_char_def num_eval)
  have d: "apply_dcode ''X1000000Y2000000D03'' (st, None) = (st\<lparr>lastDCode := 3\<rparr>, Some 3)" for st
    by (simp add: apply_dcode_def after_char_def parseInt_def js_ws_def is_digit_def
          nat_of_digits_def digit_val_def)
  have "process_block [(''10'', Some 1)] False
      (init_state 6)
      ''X1000000Y2000000D03'' =
     block_operation [(''10'', Some 1)] False
      (init_state 6)
      ''X1000000Y2000000D03''"
    using c by (simp add: process_block_operation [of "''X1000000Y2000000D03''" "''X1000000Y2000000D03''"] class_eval
                  nat_of_digits_def digit_val_def)
  also have "\<dots> = \<lparr>currentX = 1, currentY = 2, lastX = 0, lastY = 0, hasLastPoint = False,
       isFirstMove = True, currentTool = ''10'', lastDCode = 3, isRegionMode = False,
       divisor = 1000000, pathDataArray = [''M0.500 2.000 A0.500 0.500 0 1 0 1.500 2.000 A0.500 0.500 0 1 0 0.500 2.000 Z ''],
       extent = Some (1, 2, 1, 2)\<rparr>"
    by (simp add: block_operation_def g d apply_coords_def x y init_state_def widen_def plot_def
          flash_text_def or_default_def push_def toFixed_eval)
  finally show ?thesis .
qed

text \<open>
  C4 (the code at the failing input): one flash of the circular aperture of diameter \<open>1\<close> at
  \<open>(1, 2)\<close> draws the circle from \<open>0.5\<close> to \<open>1.5\<close>, and the bounds returned with it are the
  centre alone, \<open>{x: 1, y: 2, width: 0, height: 0}\<close>, not \<open>{0.5, 1.5, 1, 1}\<close>.
\<close>

theorem convert_single_flash:
  "convert ''%FSLAX46Y46*%%ADD10C,1.000*%D10*X1000000Y2000000D03*'' =
     (''M0.500 2.000 A0.500 0.500 0 1 0 1.500 2.000 A0.500 0.500 0 1 0 0.500 2.000 Z'',
      \<lparr>box_x = 1, box_y = 2, box_width = 0, box_height = 0\<rparr>)"
proof -
  have f: "foldl (process_block [(''10'', Some 1)] False) (init_state 6)
          [''%FSLAX46Y46'', ''%%ADD10C,1.000'', ''%D10'', ''X1000000Y2000000D03'', []] =
     \<lparr>currentX = 1, currentY = 2, lastX = 0, lastY = 0, hasLastPoint = False,
       isFirstMove = True, currentTool = ''10'', lastDCode = 3, isRegionMode = False,
       divisor = 1000000, pathDataArray = [''M0.500 2.000 A0.500 0.500 0 1 0 1.500 2.000 A0.500 0.500 0 1 0 0.500 2.000 Z ''],
       extent = Some (1, 2, 1, 2)\<rparr>"
    by (simp only: foldl.simps convert_single_flash_params convert_single_flash_flash1)
  have i: "(CHR ''A'' = CHR ''I'' \<or> includes_str ''%FSLAX46Y46*%%ADD10C,1.000*%D10*X1000000Y2000000D03*'' ''G91'') = False"
    unfolding convert_single_flash_header(3) by simp
  have ne: "''%FSLAX46Y46*%%ADD10C,1.000*%D10*X1000000Y2000000D03*'' \<noteq> []"
    by simp
  show ?thesis
    unfolding convert_steps [OF ne convert_single_flash_header(1) convert_single_flash_header(2) i convert_single_flash_header(4) f]
    by (simp add: trim_def js_ws_def)
qed

lemma convert_incremental_flashes_header:
  "parse_apertures ''%FSLIX46Y46*%%ADD10C,1.000*%D10*X1000000Y1000000D03*X1000000Y0D03*'' = [(''10'', Some 1)]"
  "parse_format ''%FSLIX46Y46*%%ADD10C,1.000*%D10*X1000000Y1000000D03*X1000000Y0D03*'' = (6, CHR ''I'')"
  "includes_str ''%FSLIX46Y46*%%ADD10C,1.000*%D10*X1000000Y1000000D03*X1000000Y0D03*'' ''G91'' = False"
  "split_marks [] (replace_stars ''%FSLIX46Y46*%%ADD10C,1.000*%D10*X1000000Y1000000D03*X1000000Y0D03*'') =
     [''%FSLIX46Y46'', ''%%ADD10C,1.000'', ''%D10'', ''X1000000Y1000000D03'', ''X1000000Y0D03'', []]"
     apply (simp add: parse_apertures_def match_add_def num_eval)
    apply (simp add: parse_format_def match_fs_def is_digit_def digit_val_def)
   apply (simp add: startsWith_def)
  apply (simp add: replace_stars_def)
  done

lemma convert_incremental_flashes_params:
  "process_block aps inc (init_state 6) ''%FSLIX46Y46'' = init_state 6"
  "process_block aps inc st ''%%ADD10C,1.000'' = st"
  "process_block aps inc st ''%D10'' = st"
  "process_block aps inc st [] = st"
proof -
  have "first_match match_xy ''%FSLIX46Y46'' = Some (CHR ''6'')"
    by (simp add: is_digit_def)
  then show "process_block aps inc (init_state 6) ''%FSLIX46Y46'' = init_state 6"
    using process_block_param [of "''%FSLIX46Y46''" "''%FSLIX46Y46''" aps inc "init_state 6"]
    by (simp add: class_eval digit_val_def init_state_def)
  have "first_match match_xy ''%%ADD10C,1.000'' = None"
    by (simp add: is_digit_def)
  then show "process_block aps inc st ''%%ADD10C,1.000'' = st"
    using process_block_param [of "''%%ADD10C,1.000''" "''%%ADD10C,1.000''" aps inc st]
    by (simp add: class_eval)
  have "first_match match_xy ''%D10'' = None"
    by simp
  then show "process_block aps inc st ''%D10'' = st"
    using process_block_param [of "''%D10''" "''%D10''" aps inc st]
    by (simp add: class_eval)
  show "process_block aps inc st [] = st"
    by (simp add: process_block_empty trim_def)
qed

lemma convert_incremental_flashes_flash1:
  "process_block [(''10'', Some 1)] True
      (init_state 6)
      ''X1000000Y1000000D03'' =
     \<lparr>currentX = 1, currentY = 1, lastX = 0, lastY = 0, hasLastPoint = False,
       isFirstMove = True, currentTool = ''10'', lastDCode = 3, isRegionMode = False,
       divisor = 1000000, pathDataArray = [''M0.500 1.000 A0.500 0.500 0 1 0 1.500 1.000 A0.500 0.500 0 1 0 0.500 1.000 Z ''],
       extent = Some (1, 1, 1, 1)\<rparr>"
proof -
  have c: "first_match match_tool ''X1000000Y1000000D03'' = Some ''03''"
    by (simp add: is_digit_def)
  have g: "apply_gcodes ''X1000000Y1000000D03'' st = (st, None)" for st
    by (simp add: apply_gcodes_def startsWith_def)
  have x: "read_coord (CHR ''X'') ''X1000000Y1000000D03'' 1000000 = Some 1"
    by (simp add: read_coord_def after_char_def num_eval)
  have y: "read_coord (CHR ''Y'') ''X1000000Y1000000D03'' 1000000 = Some 1"
    by (simp add: read_coord_def after_char_def num_eval)
  have d: "apply_dcode ''X1000000Y1000000D03'' (st, None) = (st\<lparr>lastDCode := 3\<rparr>, Some 3)" for st
    by (simp add: apply_dcode_def after_char_def parseInt_def js_ws_def is_digit_def
          nat_of_digits_def digit_val_def)
  have "process_block [(''10'', Some 1)] True
      (init_state 6)
      ''X1000000Y1000000D03'' =
     block_operation [(''10'', Some 1)] True
      (init_state 6)
      ''X1000000Y1000000D03''"
    using c by (simp add: process_block_operation [of "''X1000000Y1000000D03''" "''X1000000Y1000000D03''"] class_eval
                  nat_of_digits_def digit_val_def)
  also have "\<dots> = \<lparr>currentX = 1, currentY = 1, lastX = 0, lastY = 0, hasLastPoint = False,
       isFirstMove = True, currentTool = ''10'', lastDCode = 3, isRegionMode = False,
       divisor = 1000000, pathDataArray = [''M0.500 1.000 A0.500 0.500 0 1 0 1.500 1.000 A0.500 0.500 0 1 0 0.500 1.000 Z ''],
       extent = Some (1, 1, 1, 1)\<rparr>"
    by (simp add: block_operation_def g d apply_coords_def x y init_state_def widen_def plot_def
          flash_text_def or_default_def push_def toFixed_eval)
  finally show ?thesis .
qed

lemma convert_incremental_flashes_flash2:
  "process_block [(''10'', Some 1)] True
      (\<lparr>currentX = 1, currentY = 1, lastX = 0, lastY = 0, hasLastPoint = False,
       isFirstMove = True, currentTool = ''10'', lastDCode = 3, isRegionMode = False,
       divisor = 1000000, pathDataArray = [''M0.500 1.000 A0.500 0.500 0 1 0 1.500 1.000 A0.500 0.500 0 1 0 0.500 1.000 Z ''],
       extent = Some (1, 1, 1, 1)\<rparr>)
      ''X1000000Y0D03'' =
     \<lparr>currentX = 1, currentY = 0, lastX = 0, lastY = 0, hasLastPoint = False,
       isFirstMove = True, currentTool = ''10'', lastDCode = 3, isRegionMode = False,
       divisor = 1000000, pathDataArray = [''M0.500 1.000 A0.500 0.500 0 1 0 1.500 1.000 A0.500 0.500 0 1 0 0.500 1.000 Z '', ''M0.500 0.000 A0.500 0.500 0 1 0 1.500 0.000 A0.500 0.500 0 1 0 0.500 0.000 Z ''],
       extent = Some (1, 0, 1, 1)\<rparr>"
proof -
  have c: "first_match match_tool ''X1000000Y0D03'' = Some ''03''"
    by (simp add: is_digit_def)
  have g: "apply_gcodes ''X1000000Y0D03'' st = (st, None)" for st
    by (simp add: apply_gcodes_def startsWith_def)
  have x: "read_coord (CHR ''X'') ''X1000000Y0D03'' 1000000 = Some 1"
    by (simp add: read_coord_def after_char_def num_eval)
  have y: "read_coord (CHR ''Y'') ''X1000000Y0D03'' 1000000 = Some 0"
    by (simp add: read_coord_def after_char_def num_eval)
  have d: "apply_dcode ''X1000000Y0D03'' (st, None) = (st\<lparr>lastDCode := 3\<rparr>, Some 3)" for st
    by (simp add: apply_dcode_def after_char_def parseInt_def js_ws_def is_digit_def
          nat_of_digits_def digit_val_def)
  have "process_block [(''10'', Some 1)] True
      (\<lparr>currentX = 1, currentY = 1, lastX = 0, lastY = 0, hasLastPoint = False,
       isFirstMove = True, currentTool = ''10'', lastDCode = 3, isRegionMode = False,
       divisor = 1000000, pathDataArray = [''M0.500 1.000 A0.500 0.500 0 1 0 1.500 1.000 A0.500 0.500 0 1 0 0.500 1.000 Z ''],
       extent = Some (1, 1, 1, 1)\<rparr>)
      ''X1000000Y0D03'' =
     block_operation [(''10'', Some 1)] True
      (\<lparr>currentX = 1, currentY = 1, lastX = 0, lastY = 0, hasLastPoint = False,
       isFirstMove = True, currentTool = ''10'', lastDCode = 3, isRegionMode = False,
       divisor = 1000000, pathDataArray = [''M0.500 1.000 A0.500 0.500 0 1 0 1.500 1.000 A0.500 0.500 0 1 0 0.500 1.000 Z ''],
       extent = Some (1, 1, 1, 1)\<rparr>)
      ''X1000000Y0D03''"
    using c by (simp add: process_block_operation [of "''X1000000Y0D03''" "''X1000000Y0D03''"] class_eval
                  nat_of_digits_def digit_val_def)
  also have "\<dots> = \<lparr>currentX = 1, currentY = 0, lastX = 0, lastY = 0, hasLastPoint = False,
       isFirstMove = True, currentTool = ''10'', lastDCode = 3, isRegionMode = False,
       divisor = 1000000, pathDataArray = [''M0.500 1.000 A0.500 0.500 0 1 0 1.500 1.000 A0.500 0.500 0 1 0 0.500 1.000 Z '', ''M0.500 0.000 A0.500 0.500 0 1 0 1.500 0.000 A0.500 0.500 0 1 0 0.500 0.000 Z ''],
       extent = Some (1, 0, 1, 1)\<rparr>"
    by (simp add: block_operation_def g d apply_coords_def x y init_state_def widen_def plot_def
          flash_text_def or_default_def push_def toFixed_eval)
  finally show ?thesis .
qed

text \<open>
  C5 (the code at the failing input): in incremental mode the second flash block
  \<open>X1000000Y0D03\<close> is a delta of \<open>(1, 0)\<close> from \<open>(1, 1)\<close>, yet the circle is drawn around
  \<open>(1, 0)\<close>: the coordinate after a flash is taken as absolute.
\<close>

theorem convert_incremental_flashes:
  "convert ''%FSLIX46Y46*%%ADD10C,1.000*%D10*X1000000Y1000000D03*X1000000Y0D03*'' =
     (''M0.500 1.000 A0.500 0.500 0 1 0 1.500 1.000 A0.500 0.500 0 1 0 0.500 1.000 Z M0.500 0.000 A0.500 0.500 0 1 0 1.500 0.000 A0.500 0.500 0 1 0 0.500 0.000 Z'',
      \<lparr>box_x = 1, box_y = 0, box_width = 0, box_height = 1\<rparr>)"
proof -
  have f: "foldl (process_block [(''10'', Some 1)] True) (init_state 6)
          [''%FSLIX46Y46'', ''%%ADD10C,1.000'', ''%D10'', ''X1000000Y1000000D03'', ''X1000000Y0D03'', []] =
     \<lparr>currentX = 1, currentY = 0, lastX = 0, lastY = 0, hasLastPoint = False,
       isFirstMove = True, currentTool = ''10'', lastDCode = 3, isRegionMode = False,
       divisor = 1000000, pathDataArray = [''M0.500 1.000 A0.500 0.500 0 1 0 1.500 1.000 A0.500 0.500 0 1 0 0.500 1.000 Z '', ''M0.500 0.000 A0.500 0.500 0 1 0 1.500 0.000 A0.500 0.500 0 1 0 0.500 0.000 Z ''],
       extent = Some (1, 0, 1, 1)\<rparr>"
    by (simp only: foldl.simps convert_incremental_flashes_params convert_incremental_flashes_flash1 convert_incremental_flashes_flash2)
  have i: "(CHR ''I'' = CHR ''I'' \<or> includes_str ''%FSLIX46Y46*%%ADD10C,1.000*%D10*X1000000Y1000000D03*X1000000Y0D03*'' ''G91'') = True"
    unfolding convert_incremental_flashes_header(3) by simp
  have ne: "''%FSLIX46Y46*%%ADD10C,1.000*%D10*X1000000Y1000000D03*X1000000Y0D03*'' \<noteq> []"
    by simp
  show ?thesis
    unfolding convert_steps [OF ne convert_incremental_flashes_header(1) convert_incremental_flashes_header(2) i convert_incremental_flashes_header(4) f]
    by (simp add: trim_def js_ws_def)
qed

section \<open>The divisor after a step-and-repeat block\<close>

lemma format_blocks:
  "process_block aps inc (init_state 6) ''%FSLAX46Y46'' = init_state 6"
  "process_block aps inc st ''%%SRX10Y10I1J1'' = st\<lparr>divisor := 1\<rparr>"
  "process_block aps inc st ''%G01'' = st"
  "process_block aps inc st [] = st"
proof -
  have "first_match match_xy ''%FSLAX46Y46'' = Some (CHR ''6'')"
    by (simp add: is_digit_def)
  then show "process_block aps inc (init_state 6) ''%FSLAX46Y46'' = init_state 6"
    using process_block_param [of "''%FSLAX46Y46''" "''%FSLAX46Y46''" aps inc "init_state 6"]
    by (simp add: class_eval digit_val_def init_state_def)
  have "first_match match_xy ''%%SRX10Y10I1J1'' = Some (CHR ''0'')"
    by (simp add: is_digit_def)
  then show "process_block aps inc st ''%%SRX10Y10I1J1'' = st\<lparr>divisor := 1\<rparr>"
    using process_block_param [of "''%%SRX10Y10I1J1''" "''%%SRX10Y10I1J1''" aps inc st]
    by (simp add: class_eval digit_val_def)
  have "first_match match_xy ''%G01'' = None"
    by simp
  then show "process_block aps inc st ''%G01'' = st"
    using process_block_param [of "''%G01''" "''%G01''" aps inc st]
    by (simp add: class_eval)
  show "process_block aps inc st [] = st"
    by (simp add: process_block_empty trim_def)
qed

lemma step_repeat_header:
  "parse_apertures ''%FSLAX46Y46*%%SRX10Y10I1J1*%G01*X1000000Y2000000D02*'' = []"
  "parse_format ''%FSLAX46Y46*%%SRX10Y10I1J1*%G01*X1000000Y2000000D02*'' = (6, CHR ''A'')"
  "includes_str ''%FSLAX46Y46*%%SRX10Y10I1J1*%G01*X1000000Y2000000D02*'' ''G91'' = False"
  "split_marks [] (replace_stars ''%FSLAX46Y46*%%SRX10Y10I1J1*%G01*X1000000Y2000000D02*'') =
     [''%FSLAX46Y46'', ''%%SRX10Y10I1J1'', ''%G01'', ''X1000000Y2000000D02'', []]"
     apply (simp add: parse_apertures_def match_add_def num_eval)
    apply (simp add: parse_format_def match_fs_def is_digit_def digit_val_def)
   apply (simp add: startsWith_def)
  apply (simp add: replace_stars_def)
  done

lemma step_repeat_move:
  "process_block [] False
      ((init_state 6)\<lparr>divisor := 1\<rparr>)
      ''X1000000Y2000000D02'' =
     \<lparr>currentX = 1000000, currentY = 2000000, lastX = 1000000, lastY = 2000000, hasLastPoint = True,
       isFirstMove = False, currentTool = ''10'', lastDCode = 2, isRegionMode = False,
       divisor = 1, pathDataArray = [''M1000000.000 2000000.000 ''],
       extent = Some (1000000, 2000000, 1000000, 2000000)\<rparr>"
proof -
  have c: "first_match match_tool ''X1000000Y2000000D02'' = Some ''02''"
    by (simp add: is_digit_def)
  have g: "apply_gcodes ''X1000000Y2000000D02'' st = (st, None)" for st
    by (simp add: apply_gcodes_def startsWith_def)
  have x: "read_coord (CHR ''X'') ''X1000000Y2000000D02'' 1 = Some 1000000"
    by (simp add: read_coord_def after_char_def num_eval)
  have y: "read_coord (CHR ''Y'') ''X1000000Y2000000D02'' 1 = Some 2000000"
    by (simp add: read_coord_def after_char_def num_eval)
  have d: "apply_dcode ''X1000000Y2000000D02'' (st, None) = (st\<lparr>lastDCode := 2\<rparr>, Some 2)" for st
    by (simp add: apply_dcode_def after_char_def parseInt_def js_ws_def is_digit_def
          nat_of_digits_def digit_val_def)
  have "process_block [] False
      ((init_state 6)\<lparr>divisor := 1\<rparr>)
      ''X1000000Y2000000D02'' =
     block_operation [] False
      ((init_state 6)\<lparr>divisor := 1\<rparr>)
      ''X1000000Y2000000D02''"
    using c by (simp add: process_block_operation [of "''X1000000Y2000000D02''" "''X1000000Y2000000D02''"] class_eval
                  nat_of_digits_def digit_val_def)
  also have "\<dots> = \<lparr>currentX = 1000000, currentY = 2000000, lastX = 1000000, lastY = 2000000, hasLastPoint = True,
       isFirstMove = False, currentTool = ''10'', lastDCode = 2, isRegionMode = False,
       divisor = 1, pathDataArray = [''M1000000.000 2000000.000 ''],
       extent = Some (1000000, 2000000, 1000000, 2000000)\<rparr>"
    by (simp add: block_operation_def g d apply_coords_def x y init_state_def widen_def plot_def
          push_def point_text_def toFixed_eval)
  finally show ?thesis .
qed

lemma step_repeat_run:
  "convert ''%FSLAX46Y46*%%SRX10Y10I1J1*%G01*X1000000Y2000000D02*'' =
     (''M1000000.000 2000000.000'',
      \<lparr>box_x = 1000000, box_y = 2000000, box_width = 0, box_height = 0\<rparr>)"
proof -
  have f: "foldl (process_block [] False) (init_state 6)
          [''%FSLAX46Y46'', ''%%SRX10Y10I1J1'', ''%G01'', ''X1000000Y2000000D02'', []] =
     \<lparr>currentX = 1000000, currentY = 2000000, lastX = 1000000, lastY = 2000000, hasLastPoint = True,
       isFirstMove = False, currentTool = ''10'', lastDCode = 2, isRegionMode = False,
       divisor = 1, pathDataArray = [''M1000000.000 2000000.000 ''],
       extent = Some (1000000, 2000000, 1000000, 2000000)\<rparr>"
    by (simp only: foldl.simps format_blocks step_repeat_move)
  have i: "(CHR ''A'' = CHR ''I'' \<or> includes_str ''%FSLAX46Y46*%%SRX10Y10I1J1*%G01*X1000000Y2000000D02*'' ''G91'') = False"
    unfolding step_repeat_header(3) by simp
  have ne: "''%FSLAX46Y46*%%SRX10Y10I1J1*%G01*X1000000Y2000000D02*'' \<noteq> []"
    by simp
  show ?thesis
    unfolding convert_steps [OF ne step_repeat_header(1) step_repeat_header(2) i step_repeat_header(4) f]
    by (simp add: trim_def js_ws_def)
qed

lemma no_step_repeat_header:
  "parse_apertures ''%FSLAX46Y46*%G01*X1000000Y2000000D02*'' = []"
  "parse_format ''%FSLAX46Y46*%G01*X1000000Y2000000D02*'' = (6, CHR ''A'')"
  "includes_str ''%FSLAX46Y46*%G01*X1000000Y2000000D02*'' ''G91'' = False"
  "split_marks [] (replace_stars ''%FSLAX46Y46*%G01*X1000000Y2000000D02*'') =
     [''%FSLAX46Y46'', ''%G01'', ''X1000000Y2000000D02'', []]"
     apply (simp add: parse_apertures_def match_add_def num_eval)
    apply (simp add: parse_format_def match_fs_def is_digit_def digit_val_def)
   apply (simp add: startsWith_def)
  apply (simp add: replace_stars_def)
  done

lemma no_step_repeat_move:
  "process_block [] False
      (init_state 6)
      ''X1000000Y2000000D02'' =
     \<lparr>currentX = 1, currentY = 2, lastX = 1, lastY = 2, hasLastPoint = True,
       isFirstMove = False, currentTool = ''10'', lastDCode = 2, isRegionMode = False,
       divisor = 1000000, pathDataArray = [''M1.000 2.000 ''],
       extent = Some (1, 2, 1, 2)\<rparr>"
proof -
  have c: "first_match match_tool ''X1000000Y2000000D02'' = Some ''02''"
    by (simp add: is_digit_def)
  have g: "apply_gcodes ''X1000000Y2000000D02'' st = (st, None)" for st
    by (simp add: apply_gcodes_def startsWith_def)
  have x: "read_coord (CHR ''X'') ''X1000000Y2000000D02'' 1000000 = Some 1"
    by (simp add: read_coord_def after_char_def num_eval)
  have y: "read_coord (CHR ''Y'') ''X1000000Y2000000D02'' 1000000 = Some 2"
    by (simp add: read_coord_def after_char_def num_eval)
  have d: "apply_dcode ''X1000000Y2000000D02'' (st, None) = (st\<lparr>lastDCode := 2\<rparr>, Some 2)" for st
    by (simp add: apply_dcode_def after_char_def parseInt_def js_ws_def is_digit_def
          nat_of_digits_def digit_val_def)
  have "process_block [] False
      (init_state 6)
      ''X1000000Y2000000D02'' =
     block_operation [] False
      (init_state 6)
      ''X1000000Y2000000D02''"
    using c by (simp add: process_block_operation [of "''X1000000Y2000000D02''" "''X1000000Y2000000D02''"] class_eval
                  nat_of_digits_def digit_val_def)
  also have "\<dots> = \<lparr>currentX = 1, currentY = 2, lastX = 1, lastY = 2, hasLastPoint = True,
       isFirstMove = False, currentTool = ''10'', lastDCode = 2, isRegionMode = False,
       divisor = 1000000, pathDataArray = [''M1.000 2.000 ''],
       extent = Some (1, 2, 1, 2)\<rparr>"
    by (simp add: block_operation_def g d apply_coords_def x y init_state_def widen_def plot_def
          push_def point_text_def toFixed_eval)
  finally show ?thesis .
qed

lemma no_step_repeat_run:
  "convert ''%FSLAX46Y46*%G01*X1000000Y2000000D02*'' =
     (''M1.000 2.000'',
      \<lparr>box_x = 1, box_y = 2, box_width = 0, box_height = 0\<rparr>)"
proof -
  have f: "foldl (process_block [] False) (init_state 6)
          [''%FSLAX46Y46'', ''%G01'', ''X1000000Y2000000D02'', []] =
     \<lparr>currentX = 1, currentY = 2, lastX = 1, lastY = 2, hasLastPoint = True,
       isFirstMove = False, currentTool = ''10'', lastDCode = 2, isRegionMode = False,
       divisor = 1000000, pathDataArray = [''M1.000 2.000 ''],
       extent = Some (1, 2, 1, 2)\<rparr>"
    by (simp only: foldl.simps format_blocks no_step_repeat_move)
  have i: "(CHR ''A'' = CHR ''I'' \<or> includes_str ''%FSLAX46Y46*%G01*X1000000Y2000000D02*'' ''G91'') = False"
    unfolding no_step_repeat_header(3) by simp
  have ne: "''%FSLAX46Y46*%G01*X1000000Y2000000D02*'' \<noteq> []"
    by simp
  show ?thesis
    unfolding convert_steps [OF ne no_step_repeat_header(1) no_step_repeat_header(2) i no_step_repeat_header(4) f]
    by (simp add: trim_def js_ws_def)
qed

text \<open>
  C2 (the code at the failing input): the format specification declares six decimal
  digits, so the block \<open>X1000000Y2000000D02\<close> stands for the point \<open>(1, 2)\<close>, and is decoded
  so when no other parameter block precedes it. After the step-and-repeat block
  \<open>%SRX10Y10I1J1*%\<close> the same block is decoded with the divisor \<open>10^0\<close>, to the point
  \<open>(1000000, 2000000)\<close>: the loop takes \<open>X10Y10\<close> for the digits of a format specification.
\<close>

theorem convert_step_repeat_divisor:
  "parse_format ''%FSLAX46Y46*%%SRX10Y10I1J1*%G01*X1000000Y2000000D02*'' = (6, CHR ''A'') \<and>
   convert ''%FSLAX46Y46*%%SRX10Y10I1J1*%G01*X1000000Y2000000D02*'' =
     (''M1000000.000 2000000.000'',
      \<lparr>box_x = 1000000, box_y = 2000000, box_width = 0, box_height = 0\<rparr>) \<and>
   convert ''%FSLAX46Y46*%G01*X1000000Y2000000D02*'' =
     (''M1.000 2.000'', \<lparr>box_x = 1, box_y = 2, box_width = 0, box_height = 0\<rparr>)"
  using step_repeat_header(2) step_repeat_run no_step_repeat_run by (intro conjI)


section \<open>VectorProcessor.invert\<close>

text \<open>
  The geometry kernel (paper.js) is not part of the repository. Its operations are the
  fields of a record; each one either throws or returns. \<open>k_importSVG\<close> may return no
  item (\<open>null\<close>). \<open>k_subtract\<close> stands for building the board rectangle from its corner and
  size, subtracting the traces and simplifying; \<open>k_exportSVG\<close> for the export as a string.
\<close>

datatype kernel_error = Thrown

text \<open>What the loop over the geometric items sees: a path item, an item with a \<open>toPath\<close>
  method (which throws, returns nothing or returns a path item), or neither.\<close>

datatype 'p item = PathItem 'p | Convertible "kernel_error + 'p option" | Plain

record ('i, 'p, 'c) kernel =
  k_setup :: "kernel_error + unit"
  k_importSVG :: "string \<Rightarrow> kernel_error + 'i option"
  k_getItems :: "'i \<Rightarrow> kernel_error + 'p item list"
  k_subtract :: "real \<Rightarrow> real \<Rightarrow> real \<Rightarrow> real \<Rightarrow> 'p list \<Rightarrow> kernel_error + 'c"
  k_exportSVG :: "'c \<Rightarrow> kernel_error + string"

text \<open>\<open>s.replace(/pat/g, rep)\<close> for a literal, non-empty pattern.\<close>

function replace_all :: "string \<Rightarrow> string \<Rightarrow> string \<Rightarrow> string" where
  "replace_all pat rep [] = []"
| "replace_all pat rep (c # cs) =
     (if pat = [] then c # cs
      else case after_prefix pat (c # cs) of
             Some rest \<Rightarrow> rep @ replace_all pat rep rest
           | None \<Rightarrow> c # replace_all pat rep cs)"
  by pat_completeness auto
termination
  by (relation "measure (\<lambda>(pat, rep, s). length s)") (auto dest: after_prefix_length)

definition svg_of :: "string \<Rightarrow> string" where
  \<open>svg_of tracePathData =
     (if startsWith (trim tracePathData) ''<''
      then ''<svg xmlns="http://www.w3.org/2000/svg">'' @
           replace_all ''stroke="currentColor"'' ''stroke="#000000"''
             (replace_all ''fill="currentColor"'' ''fill="#000000"'' tracePathData) @
           ''</svg>''
      else ''<svg xmlns="http://www.w3.org/2000/svg"><path d="'' @ tracePathData @
           ''" stroke="black" stroke-width="0.1" fill="black"/></svg>'')\<close>

text \<open>The children added to \<open>traces\<close>; \<open>hasAnyContent\<close> is set when one is added.\<close>

fun collect :: "'p item list \<Rightarrow> 'p list \<Rightarrow> kernel_error + 'p list" where
  "collect [] traces = Inr traces"
| "collect (PathItem p # items) traces = collect items (traces @ [p])"
| "collect (Convertible (Inl e) # items) traces = Inl e"
| "collect (Convertible (Inr None) # items) traces = collect items traces"
| "collect (Convertible (Inr (Some p)) # items) traces = collect items (traces @ [p])"
| "collect (Plain # items) traces = collect items traces"

text \<open>\<open>svg.match(/d="([^"]+)"/)\<close>: group 1 of the first match.\<close>

definition match_d :: "string \<Rightarrow> string option" where
  \<open>match_d s =
     (case after_prefix ''d="'' s of
        None \<Rightarrow> None
      | Some rest \<Rightarrow>
          if takeWhile (\<lambda>c. c \<noteq> CHR ''"'') rest \<noteq> [] \<and> dropWhile (\<lambda>c. c \<noteq> CHR ''"'') rest \<noteq> []
          then Some (takeWhile (\<lambda>c. c \<noteq> CHR ''"'') rest) else None)\<close>

text \<open>The body of the \<open>try\<close> block: \<open>Inl\<close> is an exception on its way to \<open>catch\<close>.\<close>

definition attempt ::
  "('i, 'p, 'c) kernel \<Rightarrow> string \<Rightarrow> box \<Rightarrow> real \<Rightarrow> kernel_error + string" where
  "attempt k tracePathData bounds padding =
     (case k_importSVG k (svg_of tracePathData) of
        Inl e \<Rightarrow> Inl e
      | Inr None \<Rightarrow> Inl Thrown
      | Inr (Some imported) \<Rightarrow>
          (case k_getItems k imported of
             Inl e \<Rightarrow> Inl e
           | Inr allGeometricItems \<Rightarrow>
               (case collect allGeometricItems [] of
                  Inl e \<Rightarrow> Inl e
                | Inr traces \<Rightarrow>
                    if traces = [] then Inr tracePathData
                    else
                      (case k_subtract k (box_x bounds - padding) (box_y bounds - padding)
                              (box_width bounds + padding * 2) (box_height bounds + padding * 2)
                              traces of
                         Inl e \<Rightarrow> Inl e
                       | Inr clearance \<Rightarrow>
                           (case k_exportSVG k clearance of
                              Inl e \<Rightarrow> Inl e
                            | Inr svg \<Rightarrow>
                                Inr (case first_match match_d svg of
                                       Some d \<Rightarrow> d
                                     | None \<Rightarrow> []))))))"

text \<open>\<open>invert\<close>: the scope is set up before the \<open>try\<close> block, so an exception there is
  not caught (\<open>Inl\<close>).\<close>

definition invert ::
  "('i, 'p, 'c) kernel \<Rightarrow> string \<Rightarrow> box \<Rightarrow> real \<Rightarrow> kernel_error + string" where
  "invert k tracePathData bounds padding =
     (if tracePathData = [] \<or> trim tracePathData = [] then Inr []
      else case k_setup k of
             Inl e \<Rightarrow> Inl e
           | Inr _ \<Rightarrow>
               (case attempt k tracePathData bounds padding of
                  Inl err \<Rightarrow> Inr tracePathData
                | Inr result \<Rightarrow> Inr result))"

text \<open>Kernels that fail at one step each; \<open>working_kernel\<close> fails nowhere.\<close>

definition working_kernel :: "(unit, unit, unit) kernel" where
  \<open>working_kernel =
     \<lparr>k_setup = Inr (),
      k_importSVG = (\<lambda>svg. Inr (Some ())),
      k_getItems = (\<lambda>i. Inr [PathItem ()]),
      k_subtract = (\<lambda>x y w h traces. Inr ()),
      k_exportSVG = (\<lambda>c. Inr ''<path d="M0 0Z"/>'')\<rparr>\<close>

definition no_scope_kernel :: "(unit, unit, unit) kernel" where
  "no_scope_kernel = working_kernel\<lparr>k_setup := Inl Thrown\<rparr>"

definition throwing_import_kernel :: "(unit, unit, unit) kernel" where
  "throwing_import_kernel = working_kernel\<lparr>k_importSVG := (\<lambda>svg. Inl Thrown)\<rparr>"

definition null_import_kernel :: "(unit, unit, unit) kernel" where
  "null_import_kernel = working_kernel\<lparr>k_importSVG := (\<lambda>svg. Inr None)\<rparr>"

definition throwing_items_kernel :: "(unit, unit, unit) kernel" where
  "throwing_items_kernel = working_kernel\<lparr>k_getItems := (\<lambda>i. Inl Thrown)\<rparr>"

definition throwing_toPath_kernel :: "(unit, unit, unit) kernel" where
  "throwing_toPath_kernel =
     working_kernel\<lparr>k_getItems := (\<lambda>i. Inr [PathItem (), Convertible (Inl Thrown)])\<rparr>"

definition no_items_kernel :: "(unit, unit, unit) kernel" where
  "no_items_kernel = working_kernel\<lparr>k_getItems := (\<lambda>i. Inr [Plain, Convertible (Inr None)])\<rparr>"

definition throwing_subtract_kernel :: "(unit, unit, unit) kernel" where
  "throwing_subtract_kernel = working_kernel\<lparr>k_subtract := (\<lambda>x y w h traces. Inl Thrown)\<rparr>"

definition throwing_export_kernel :: "(unit, unit, unit) kernel" where
  "throwing_export_kernel = working_kernel\<lparr>k_exportSVG := (\<lambda>c. Inl Thrown)\<rparr>"

lemma trim_nonempty: "trim s \<noteq> [] \<Longrightarrow> s \<noteq> []"
  by (auto simp: trim_def)

lemma invert_caught:
  "k_setup k = Inr u \<Longrightarrow> trim t \<noteq> [] \<Longrightarrow> attempt k t bounds padding = Inl e \<Longrightarrow>
   invert k t bounds padding = Inr t"
  by (auto simp: invert_def dest: trim_nonempty)

lemma invert_returned:
  "k_setup k = Inr u \<Longrightarrow> trim t \<noteq> [] \<Longrightarrow> attempt k t bounds padding = Inr r \<Longrightarrow>
   invert k t bounds padding = Inr r"
  by (auto simp: invert_def dest: trim_nonempty)

text \<open>
  C1 (as the code has it): a blank trace string gives the empty string. For a trace
  string that is not blank (and so not empty): an exception of the scope set-up, which
  precedes the \<open>try\<close> block, reaches the caller; with the scope set up, the result is the
  original trace string in each of these cases: the import throws; the import returns
  nothing; the search for the geometric items throws; a conversion \<open>toPath\<close> throws; no
  path item is found; the subtraction (with the simplification) throws; the export
  throws.
\<close>

theorem invert_falls_back:
  "(trim t = [] \<longrightarrow> invert k t bounds padding = Inr []) \<and>
   (trim t \<noteq> [] \<longrightarrow>
      t \<noteq> [] \<and>
      (k_setup k = Inl e \<longrightarrow> invert k t bounds padding = Inl e) \<and>
      (k_setup k = Inr u \<longrightarrow>
         (k_importSVG k (svg_of t) = Inl e \<longrightarrow> invert k t bounds padding = Inr t) \<and>
         (k_importSVG k (svg_of t) = Inr None \<longrightarrow> invert k t bounds padding = Inr t) \<and>
         (k_importSVG k (svg_of t) = Inr (Some imported) \<longrightarrow>
            (k_getItems k imported = Inl e \<longrightarrow> invert k t bounds padding = Inr t) \<and>
            (k_getItems k imported = Inr items \<longrightarrow>
               (collect items [] = Inl e \<longrightarrow> invert k t bounds padding = Inr t) \<and>
               (collect items [] = Inr [] \<longrightarrow> invert k t bounds padding = Inr t) \<and>
               (collect items [] = Inr traces \<and> traces \<noteq> [] \<longrightarrow>
                  (k_subtract k (box_x bounds - padding) (box_y bounds - padding)
                     (box_width bounds + padding * 2) (box_height bounds + padding * 2)
                     traces = Inl e \<longrightarrow>
                   invert k t bounds padding = Inr t) \<and>
                  (k_subtract k (box_x bounds - padding) (box_y bounds - padding)
                     (box_width bounds + padding * 2) (box_height bounds + padding * 2)
                     traces = Inr clearance \<and>
                   k_exportSVG k clearance = Inl e \<longrightarrow>
                   invert k t bounds padding = Inr t))))))"
proof (intro conjI impI)
  assume "trim t = []"
  then show "invert k t bounds padding = Inr []"
    by (simp add: invert_def)
next
  assume "trim t \<noteq> []"
  then show "t \<noteq> []" by (rule trim_nonempty)
next
  assume "trim t \<noteq> []" and "k_setup k = Inl e"
  then show "invert k t bounds padding = Inl e"
    by (auto simp: invert_def dest: trim_nonempty)
next
  assume ne: "trim t \<noteq> []" and su: "k_setup k = Inr u" and "k_importSVG k (svg_of t) = Inl e"
  then have "attempt k t bounds padding = Inl e"
    by (simp add: attempt_def)
  with su ne show "invert k t bounds padding = Inr t"
    by (rule invert_caught)
next
  assume ne: "trim t \<noteq> []" and su: "k_setup k = Inr u" and "k_importSVG k (svg_of t) = Inr None"
  then have "attempt k t bounds padding = Inl Thrown"
    by (simp add: attempt_def)
  with su ne show "invert k t bounds padding = Inr t"
    by (rule invert_caught)
next
  assume ne: "trim t \<noteq> []" and su: "k_setup k = Inr u"
    and "k_importSVG k (svg_of t) = Inr (Some imported)"
    and "k_getItems k imported = Inl e"
  then have "attempt k t bounds padding = Inl e"
    by (simp add: attempt_def)
  with su ne show "invert k t bounds padding = Inr t"
    by (rule invert_caught)
next
  assume ne: "trim t \<noteq> []" and su: "k_setup k = Inr u"
    and "k_importSVG k (svg_of t) = Inr (Some imported)"
    and "k_getItems k imported = Inr items" and "collect items [] = Inl e"
  then have "attempt k t bounds padding = Inl e"
    by (simp add: attempt_def)
  with su ne show "invert k t bounds padding = Inr t"
    by (rule invert_caught)
next
  assume ne: "trim t \<noteq> []" and su: "k_setup k = Inr u"
    and "k_importSVG k (svg_of t) = Inr (Some imported)"
    and "k_getItems k imported = Inr items" and "collect items [] = Inr []"
  then have "attempt k t bounds padding = Inr t"
    by (simp add: attempt_def)
  with su ne show "invert k t bounds padding = Inr t"
    by (rule invert_returned)
next
  assume ne: "trim t \<noteq> []" and su: "k_setup k = Inr u"
    and "k_importSVG k (svg_of t) = Inr (Some imported)"
    and "k_getItems k imported = Inr items" and "collect items [] = Inr traces \<and> traces \<noteq> []"
    and "k_subtract k (box_x bounds - padding) (box_y bounds - padding)
           (box_width bounds + padding * 2) (box_height bounds + padding * 2) traces = Inl e"
  then have "attempt k t bounds padding = Inl e"
    by (simp add: attempt_def)
  with su ne show "invert k t bounds padding = Inr t"
    by (rule invert_caught)
next
  assume ne: "trim t \<noteq> []" and su: "k_setup k = Inr u"
    and "k_importSVG k (svg_of t) = Inr (Some imported)"
    and "k_getItems k imported = Inr items" and "collect items [] = Inr traces \<and> traces \<noteq> []"
    and "k_subtract k (box_x bounds - padding) (box_y bounds - padding)
           (box_width bounds + padding * 2) (box_height bounds + padding * 2) traces = Inr clearance \<and>
         k_exportSVG k clearance = Inl e"
  then have "attempt k t bounds padding = Inl e"
    by (simp add: attempt_def)
  with su ne show "invert k t bounds padding = Inr t"
    by (rule invert_caught)
qed

lemmas kernel_eval = working_kernel_def no_scope_kernel_def throwing_import_kernel_def
  null_import_kernel_def throwing_items_kernel_def throwing_toPath_kernel_def
  no_items_kernel_def throwing_subtract_kernel_def throwing_export_kernel_def

theorem invert_falls_back_witness:
  "invert no_scope_kernel ''M0 0 L1 1'' zero_box 2 = Inl Thrown \<and>
   invert throwing_import_kernel ''M0 0 L1 1'' zero_box 2 = Inr ''M0 0 L1 1'' \<and>
   invert null_import_kernel ''M0 0 L1 1'' zero_box 2 = Inr ''M0 0 L1 1'' \<and>
   invert throwing_items_kernel ''M0 0 L1 1'' zero_box 2 = Inr ''M0 0 L1 1'' \<and>
   invert throwing_toPath_kernel ''M0 0 L1 1'' zero_box 2 = Inr ''M0 0 L1 1'' \<and>
   invert no_items_kernel ''M0 0 L1 1'' zero_box 2 = Inr ''M0 0 L1 1'' \<and>
   invert throwing_subtract_kernel ''M0 0 L1 1'' zero_box 2 = Inr ''M0 0 L1 1'' \<and>
   invert throwing_export_kernel ''M0 0 L1 1'' zero_box 2 = Inr ''M0 0 L1 1'' \<and>
   invert working_kernel ''  '' zero_box 2 = Inr []"
  using invert_falls_back [of "''M0 0 L1 1''" no_scope_kernel zero_box 2 Thrown]
        invert_falls_back [of "''M0 0 L1 1''" throwing_import_kernel zero_box 2 Thrown "()"]
        invert_falls_back [of "''M0 0 L1 1''" null_import_kernel zero_box 2 Thrown "()"]
        invert_falls_back [of "''M0 0 L1 1''" throwing_items_kernel zero_box 2 Thrown "()" "()"]
        invert_falls_back [of "''M0 0 L1 1''" throwing_toPath_kernel zero_box 2 Thrown "()" "()"
                             "[PathItem (), Convertible (Inl Thrown)]"]
        invert_falls_back [of "''M0 0 L1 1''" no_items_kernel zero_box 2 Thrown "()" "()"
                             "[Plain, Convertible (Inr None)]"]
        invert_falls_back [of "''M0 0 L1 1''" throwing_subtract_kernel zero_box 2 Thrown "()" "()"
                             "[PathItem ()]" "[()]"]
        invert_falls_back [of "''M0 0 L1 1''" throwing_export_kernel zero_box 2 Thrown "()" "()"
                             "[PathItem ()]" "[()]" "()"]
        invert_falls_back [of "''  ''" working_kernel zero_box 2]
  by (simp add: kernel_eval trim_def js_ws_def zero_box_def)

text \<open>
  A blank trace string is answered with the empty string; an exception of the scope
  set-up, which precedes the \<open>try\<close> block, reaches the caller; with a kernel that fails
  nowhere the result is the exported path.
\<close>

theorem invert_blank_counterexample:
  \<open>invert working_kernel ''  '' zero_box 2 = Inr [] \<and> ''  '' \<noteq> [] \<and>
   invert no_scope_kernel ''M0 0 L1 1'' zero_box 2 = Inl Thrown\<close>
  by (simp add: invert_def no_scope_kernel_def working_kernel_def trim_def js_ws_def)

lemma invert_working:
  \<open>invert working_kernel ''M0 0 L1 1'' zero_box 2 = Inr ''M0 0Z''\<close>
  by (simp add: invert_def attempt_def working_kernel_def trim_def js_ws_def match_d_def
        svg_of_def startsWith_def zero_box_def)

section \<open>Printing and reading a number\<close>











section \<open>Mirroring twice\<close>














subsection \<open>Finite arithmetic\<close>







subsection \<open>One operand, twice\<close>











subsection \<open>Splitting and joining\<close>











subsection \<open>Segments of a rendered path\<close>








subsection \<open>One application of the mirror, on the parsed path\<close>















subsection \<open>Two applications\<close>











end
